theory Spec2Isabelle
  imports Main
begin

section \<open>The program code generator of the GP 2 compiler (genProgram.c)\<close>

subsection \<open>Data model\<close>

text \<open>
  Modelled from the spec: the command AST of ast.h (section 3, DATA MODEL). A rule call
  holds the rule's name and a reference to the rule, of which the generator reads
  \<open>empty_lhs\<close> and \<open>is_predicate\<close>; a rule declaration carries the name and the three
  sizes passed to \<open>makeMorphism\<close>.
\<close>

record GPRule =
  name :: string
  left_nodes :: int
  left_edges :: int
  variable_count :: int
  empty_lhs :: bool
  is_predicate :: bool

record RuleCall =
  rule_name :: string
  rule :: GPRule

text \<open>
  Modelled from the spec: an if statement and a try statement are one kind of node, told
  apart by the type tag of the command, with the fields \<open>condition\<close>, \<open>then_command\<close>
  and \<open>else_command\<close> of \<open>cond_branch\<close>. A procedure call holds the body of the called
  procedure, which the generator inlines; the tree is finite, so procedures are not
  recursive. The node types that the source reports as unexpected in its \<open>default\<close>
  branches do not exist in this type.
\<close>

datatype BranchType = IF_STATEMENT | TRY_STATEMENT

datatype GPCommand =
    COMMAND_SEQUENCE "GPCommand list"
  | RULE_CALL RuleCall
  | RULE_SET_CALL "RuleCall list"
  | PROCEDURE_CALL GPCommand
  | COND_BRANCH BranchType GPCommand GPCommand GPCommand
  | ALAP_STATEMENT GPCommand
  | PROGRAM_OR GPCommand GPCommand
  | SKIP_STATEMENT
  | FAIL_STATEMENT
  | BREAK_STATEMENT bool

text \<open>
  Modelled from the spec: the declaration list. A procedure declaration is read by the
  generator only for its local declarations.
\<close>

datatype GPDeclaration =
    MAIN_DECLARATION GPCommand
  | PROCEDURE_DECLARATION "GPDeclaration list"
  | RULE_DECLARATION GPRule

datatype ContextType = MAIN_BODY | IF_BODY | TRY_BODY | LOOP_BODY

record CommandData =
  "context" :: ContextType
  loop_depth :: int
  record_changes :: bool
  restore_point :: int
  indent :: int

text \<open>
  The generator stops the process in two places: when the output file cannot be opened
  (\<open>exit(1)\<close>) and when a loop body never fails (\<open>exit(0)\<close> after the message
  "Error: Nontermination in loop.").
\<close>

datatype error = FileOpenError | NonterminationError

subsection \<open>Classification analyses\<close>

text \<open>\<open>nullCommand\<close>: the command does not change the host graph.\<close>

fun nullCommand_rule_set :: "RuleCall list \<Rightarrow> bool" where
  "nullCommand_rule_set [] = True"
| "nullCommand_rule_set (r # rule_set) =
     (if \<not> is_predicate (rule r) then False else nullCommand_rule_set rule_set)"

fun nullCommand :: "GPCommand \<Rightarrow> bool"
  and nullCommand_commands :: "GPCommand list \<Rightarrow> bool" where
  "nullCommand (COMMAND_SEQUENCE commands) = nullCommand_commands commands"
| "nullCommand (RULE_CALL rc) = (if is_predicate (rule rc) then True else False)"
| "nullCommand (RULE_SET_CALL rule_set) = nullCommand_rule_set rule_set"
| "nullCommand (PROCEDURE_CALL commands) = nullCommand commands"
| "nullCommand (COND_BRANCH IF_STATEMENT condition then_command else_command) =
     (if \<not> nullCommand then_command then False
      else if \<not> nullCommand else_command then False
      else True)"
| "nullCommand (COND_BRANCH TRY_STATEMENT condition then_command else_command) =
     (if \<not> nullCommand condition then False
      else if \<not> nullCommand then_command then False
      else if \<not> nullCommand else_command then False
      else True)"
| "nullCommand (ALAP_STATEMENT loop_body) = nullCommand loop_body"
| "nullCommand (PROGRAM_OR left_command right_command) =
     (if \<not> nullCommand left_command then False
      else if \<not> nullCommand right_command then False
      else True)"
| "nullCommand (BREAK_STATEMENT inner_loop) = True"
| "nullCommand SKIP_STATEMENT = True"
| "nullCommand FAIL_STATEMENT = True"
| "nullCommand_commands [] = True"
| "nullCommand_commands (command # commands) =
     (if \<not> nullCommand command then False else nullCommand_commands commands)"

text \<open>
  \<open>singleRule\<close>: the command amounts to a single rule call or something simpler. In a
  sequence the leading null commands are skipped.
\<close>

fun singleRule :: "GPCommand \<Rightarrow> bool"
  and singleRule_commands :: "GPCommand list \<Rightarrow> bool" where
  "singleRule (COMMAND_SEQUENCE commands) = singleRule_commands commands"
| "singleRule (RULE_CALL rc) = True"
| "singleRule (RULE_SET_CALL rule_set) = True"
| "singleRule (PROCEDURE_CALL commands) = singleRule commands"
| "singleRule (COND_BRANCH ty condition then_command else_command) = False"
| "singleRule (ALAP_STATEMENT loop_body) = False"
| "singleRule (PROGRAM_OR left_command right_command) =
     (let left_branch = singleRule left_command;
          right_branch = singleRule right_command
      in left_branch \<and> right_branch)"
| "singleRule SKIP_STATEMENT = True"
| "singleRule FAIL_STATEMENT = True"
| "singleRule (BREAK_STATEMENT inner_loop) = True"
| "singleRule_commands [] = True"
| "singleRule_commands (command # commands) =
     (if nullCommand command then singleRule_commands commands
      else if commands \<noteq> [] then False
      else singleRule command)"

text \<open>
  \<open>neverFails\<close>: the command is non-failing. The two lines of the source after the
  \<open>return true\<close> of the rule set case are never reached and have no counterpart here.
\<close>

fun neverFails_rule_set :: "RuleCall list \<Rightarrow> bool" where
  "neverFails_rule_set [] = True"
| "neverFails_rule_set (r # rule_set) =
     (if \<not> empty_lhs (rule r) then False else neverFails_rule_set rule_set)"

fun neverFails :: "GPCommand \<Rightarrow> bool"
  and neverFails_commands :: "GPCommand list \<Rightarrow> bool" where
  "neverFails (COMMAND_SEQUENCE commands) = neverFails_commands commands"
| "neverFails (RULE_CALL rc) = (if empty_lhs (rule rc) then True else False)"
| "neverFails (RULE_SET_CALL rule_set) = neverFails_rule_set rule_set"
| "neverFails (PROCEDURE_CALL commands) = neverFails commands"
| "neverFails (COND_BRANCH ty condition then_command else_command) =
     (if \<not> neverFails then_command then False
      else if \<not> neverFails else_command then False
      else True)"
| "neverFails (ALAP_STATEMENT loop_body) = True"
| "neverFails (PROGRAM_OR left_command right_command) =
     (if \<not> neverFails left_command then False
      else if \<not> neverFails right_command then False
      else True)"
| "neverFails (BREAK_STATEMENT inner_loop) = True"
| "neverFails SKIP_STATEMENT = True"
| "neverFails FAIL_STATEMENT = False"
| "neverFails_commands [] = True"
| "neverFails_commands (command # commands) =
     (if \<not> neverFails command then False else neverFails_commands commands)"

text \<open>
  The case table of the specification for \<open>neverFails\<close> (section 4.2), written from its
  words: a sequence when all elements never fail, a rule call iff \<open>empty_lhs\<close>, a rule
  set iff every rule has \<open>empty_lhs\<close>, a procedure call as its body, if and try when
  both then and else never fail, a loop always, or when both branches never fail, skip
  and break true, fail false.
\<close>

fun neverFails_spec :: "GPCommand \<Rightarrow> bool" where
  "neverFails_spec (COMMAND_SEQUENCE commands) = list_all neverFails_spec commands"
| "neverFails_spec (RULE_CALL rc) = empty_lhs (rule rc)"
| "neverFails_spec (RULE_SET_CALL rule_set) = list_all (\<lambda>r. empty_lhs (rule r)) rule_set"
| "neverFails_spec (PROCEDURE_CALL commands) = neverFails_spec commands"
| "neverFails_spec (COND_BRANCH ty condition then_command else_command) =
     (neverFails_spec then_command \<and> neverFails_spec else_command)"
| "neverFails_spec (ALAP_STATEMENT loop_body) = True"
| "neverFails_spec (PROGRAM_OR left_command right_command) =
     (neverFails_spec left_command \<and> neverFails_spec right_command)"
| "neverFails_spec SKIP_STATEMENT = True"
| "neverFails_spec (BREAK_STATEMENT inner_loop) = True"
| "neverFails_spec FAIL_STATEMENT = False"

subsection \<open>The emitter\<close>

text \<open>The double quote and the backslash of the emitted C text.\<close>

definition dq :: string where
  "dq = [CHR 0x22]"

definition bs :: string where
  "bs = [CHR 0x5C]"

text \<open>The conversion \<open>%d\<close> of \<open>fprintf\<close>: a decimal numeral, with a sign when negative.\<close>

definition digit_char :: "nat \<Rightarrow> char" where
  "digit_char d =
     (if d = 0 then CHR ''0'' else if d = 1 then CHR ''1'' else if d = 2 then CHR ''2''
      else if d = 3 then CHR ''3'' else if d = 4 then CHR ''4'' else if d = 5 then CHR ''5''
      else if d = 6 then CHR ''6'' else if d = 7 then CHR ''7'' else if d = 8 then CHR ''8''
      else CHR ''9'')"

fun digits :: "nat \<Rightarrow> string" where
  "digits n = (if n < 10 then [digit_char n] else digits (n div 10) @ [digit_char (n mod 10)])"

definition show_int :: "int \<Rightarrow> string" where
  "show_int i = (if i < 0 then ''-'' @ digits (nat (- i)) else digits (nat i))"

text \<open>
  Modelled from the spec: the macros \<open>PTF\<close> and \<open>PTFI\<close> of common.h (section 4.1, the
  emitter). \<open>PTF\<close> writes its text to the output file, \<open>PTFI\<close> writes \<open>indent\<close> spaces
  first. The text is given with its parameters already substituted. The output file is
  the list of the pieces written, in order; its bytes are their concatenation.
\<close>

definition PTF :: "string \<Rightarrow> string list" where
  "PTF code = [code]"

definition PTFI :: "string \<Rightarrow> int \<Rightarrow> string list" where
  "PTFI code ind = [replicate (nat ind) CHR '' '' @ code]"

definition file_contents :: "string list \<Rightarrow> string" where
  "file_contents out = concat out"

subsection \<open>Failure code and rule calls\<close>

text \<open>
  \<open>graph_copying\<close> is the global flag that selects the restoration strategy. The
  tracing macros are undefined at the head of the source file, so the code under them is
  not compiled. The rule name is \<open>None\<close> for the null pointer passed by a fail statement.
\<close>

definition generateFailureCode :: "bool \<Rightarrow> string option \<Rightarrow> CommandData \<Rightarrow> string list" where
  "generateFailureCode graph_copying rname data =
     (if context data = MAIN_BODY then
        (case rname of
           Some rn \<Rightarrow>
             PTFI (''fprintf(output_file, '' @ dq @ ''No output graph: rule '' @ rn
                   @ '' not applicable.'' @ bs @ ''n'' @ dq @ '');\<newline>'') (indent data)
         | None \<Rightarrow>
             PTFI (''fprintf(output_file, '' @ dq @ ''No output graph: Fail statement invoked''
                   @ bs @ ''n'' @ dq @ '');\<newline>'') (indent data))
        @ PTFI (''printf('' @ dq @ ''Output information saved to file gp2.output'' @ bs @ ''n''
                @ dq @ '');\<newline>'') (indent data)
        @ PTFI ''garbageCollect();\<newline>'' (indent data)
        @ PTFI ''fclose(output_file);\<newline>'' (indent data)
        @ PTFI ''return 0;\<newline>'' (indent data)
      else PTFI ''success = false;\<newline>'' (indent data))
     @ (if context data = IF_BODY \<or> context data = TRY_BODY
        then PTFI ''break;\<newline>'' (indent data) else [])
     @ (if context data = LOOP_BODY then
          (if restore_point data \<ge> 0 then
             (if graph_copying
              then PTFI (''host = popGraphs('' @ show_int (restore_point data) @ '');\<newline>'')
                        (indent data)
              else PTFI (''undoChanges(host, restore_point'' @ show_int (restore_point data)
                         @ '');\<newline>'') (indent data))
           else [])
        else [])"

definition generateRuleCall ::
  "bool \<Rightarrow> string \<Rightarrow> bool \<Rightarrow> bool \<Rightarrow> bool \<Rightarrow> CommandData \<Rightarrow> string list" where
  "generateRuleCall graph_copying rname elhs predicate last_rule data =
     (if elhs then
        (if predicate then []
         else
           (if restore_point data \<ge> 0 \<and> \<not> graph_copying
            then PTFI (''apply'' @ rname @ ''(true);\<newline>'') (indent data)
            else PTFI (''apply'' @ rname @ ''(false);\<newline>'') (indent data))
           @ PTFI ''success = true;\<newline>\<newline>'' (indent data))
      else
        PTFI (''if(match'' @ rname @ ''(M_'' @ rname @ ''))\<newline>'') (indent data)
        @ PTFI ''{\<newline>'' (indent data)
        @ (if \<not> predicate then
             (if context data \<noteq> IF_BODY \<or> restore_point data \<ge> 0 then
                (if record_changes data \<and> \<not> graph_copying
                 then PTFI (''apply'' @ rname @ ''(M_'' @ rname @ '', true);\<newline>'')
                           (indent data + 3)
                 else PTFI (''apply'' @ rname @ ''(M_'' @ rname @ '', false);\<newline>'')
                           (indent data + 3))
              else PTFI (''initialiseMorphism(M_'' @ rname @ '', host);\<newline>'')
                        (indent data + 3))
           else [])
        @ PTFI ''success = true;\<newline>'' (indent data + 3)
        @ (if \<not> last_rule then PTFI ''break;\<newline>'' (indent data + 3) else [])
        @ PTFI ''}\<newline>'' (indent data)
        @ (if last_rule then
             PTFI ''else\<newline>'' (indent data)
             @ PTFI ''{\<newline>'' (indent data)
             @ (let new_data = data\<lparr>indent := indent data + 3\<rparr>
                in generateFailureCode graph_copying (Some rname) new_data)
             @ PTFI ''}\<newline>'' (indent data)
           else []))"

text \<open>The loop over the rules of a rule set call: the last rule is the one with no successor.\<close>

fun generateRuleSet :: "bool \<Rightarrow> RuleCall list \<Rightarrow> CommandData \<Rightarrow> string list" where
  "generateRuleSet graph_copying [] new_data = []"
| "generateRuleSet graph_copying (r # rules) new_data =
     generateRuleCall graph_copying (rule_name r) (empty_lhs (rule r)) (is_predicate (rule r))
                      (rules = []) new_data
     @ generateRuleSet graph_copying rules new_data"

subsection \<open>Commands\<close>

text \<open>
  \<open>restore_point_count\<close> is a global variable of the generator, initialised to 0 when
  the program is loaded and never reset. Every function that may allocate a restore
  point takes its value and returns the new one with the code emitted. The variable is
  a C \<open>int\<close> of 32 bits: the increment \<open>restore_point_count++\<close> of the largest value
  2147483647 overflows and wraps around to -2147483648.
\<close>

definition INT_MAX :: int where
  "INT_MAX = 2147483647"

definition increment_restore_point_count :: "int \<Rightarrow> int" where
  "increment_restore_point_count restore_point_count =
     (if restore_point_count = INT_MAX then - INT_MAX - 1 else restore_point_count + 1)"

text \<open>
  The data of a branch condition (the head of \<open>generateBranchStatement\<close>): the context
  of the condition, and a restore point unless (1) the branch is an if statement and the
  condition is sufficiently simple, (2) the branch is a try statement and the condition
  is a null command, or (3) the branch is a try statement, the condition is sufficiently
  simple and both then and else are null commands.
\<close>

definition condition_data ::
  "BranchType \<Rightarrow> GPCommand \<Rightarrow> GPCommand \<Rightarrow> GPCommand \<Rightarrow> CommandData \<Rightarrow> int
     \<Rightarrow> CommandData \<times> int" where
  "condition_data ty condition then_command else_command data restore_point_count =
     (let cd = data\<lparr>context := (if ty = IF_STATEMENT then IF_BODY else TRY_BODY),
                       indent := indent data + 3\<rparr>
      in if context cd = IF_BODY then
           (if singleRule condition then (cd\<lparr>restore_point := - 1\<rparr>, restore_point_count)
            else (cd\<lparr>record_changes := True, restore_point := restore_point_count\<rparr>,
                  increment_restore_point_count restore_point_count))
         else
           (let null_condition = nullCommand condition;
                simple_try = (singleRule condition \<and> nullCommand then_command
                              \<and> nullCommand else_command)
            in if null_condition \<or> simple_try
               then (cd\<lparr>restore_point := - 1\<rparr>, restore_point_count)
               else (cd\<lparr>record_changes := True, restore_point := restore_point_count\<rparr>,
                     increment_restore_point_count restore_point_count)))"

text \<open>
  The data of a loop body (the head of \<open>generateLoopStatement\<close>). The loop depth and
  the indentation grow by 1 and by 3 with each level of nesting of the command; they are
  kept as integers without wrap-around.
\<close>

definition loop_data :: "GPCommand \<Rightarrow> CommandData \<Rightarrow> int \<Rightarrow> CommandData \<times> int" where
  "loop_data loop_body data restore_point_count =
     (let ld = data\<lparr>context := LOOP_BODY, loop_depth := loop_depth data + 1,
                       indent := indent data + 3\<rparr>
      in if singleRule loop_body then (ld\<lparr>restore_point := - 1\<rparr>, restore_point_count)
         else (ld\<lparr>record_changes := True, restore_point := restore_point_count\<rparr>,
               increment_restore_point_count restore_point_count))"

text \<open>
  The code that captures a restore point at the entry of a condition or of a loop: a
  copy of the host graph, or a local variable holding the top of the graph change stack.
\<close>

definition capture_restore_point :: "bool \<Rightarrow> int \<Rightarrow> int \<Rightarrow> string list" where
  "capture_restore_point graph_copying ind rp =
     (if rp \<ge> 0 then
        (if graph_copying then PTFI ''copyGraph(host);\<newline>'' ind
         else PTFI (''int restore_point'' @ show_int rp
                    @ '' = graph_change_stack == NULL ? 0 : topOfGraphChangeStack();\<newline>'') ind)
      else [])"

text \<open>
  The text that the cases of \<open>generateProgramCode\<close> for an or statement and for a
  break statement write; \<open>left_code\<close> and \<open>right_code\<close> stand for what the two calls
  on the subprograms write in between.
\<close>

definition or_code :: "CommandData \<Rightarrow> string list \<Rightarrow> string list \<Rightarrow> string list" where
  "or_code data left_code right_code =
     PTFI ''/* OR Statement */\<newline>'' (indent data)
     @ PTFI ''int random = rand();\<newline>'' (indent data)
     @ PTFI ''if((random % 2) == 0)\<newline>'' (indent data)
     @ PTFI ''{\<newline>'' (indent data)
     @ left_code
     @ PTFI ''}\<newline>'' (indent data)
     @ PTFI ''else\<newline>'' (indent data)
     @ PTFI ''{\<newline>'' (indent data)
     @ right_code
     @ PTFI ''}\<newline>'' (indent data)
     @ (if context data = IF_BODY \<or> context data = TRY_BODY
        then PTFI ''break;\<newline>'' (indent data) else [])"

definition break_code :: "bool \<Rightarrow> bool \<Rightarrow> CommandData \<Rightarrow> string list" where
  "break_code graph_copying inner_loop data =
     PTFI ''/* Break Statement */\<newline>'' (indent data)
     @ (if restore_point data \<ge> 0 then
          (if inner_loop then
             PTFI ''/* Update restore point for next iteration of inner loop. */\<newline>''
                  (indent data)
             @ PTFI (''if(success) restore_point'' @ show_int (restore_point data)
                     @ '' = topOfGraphChangeStack();\<newline>'') (indent data)
           else
             PTFI ''/* Graph changes from loop body not required.\<newline>'' (indent data)
             @ PTFI ''   Discard them so that future graph roll backs are uncorrupted. */\<newline>''
                    (indent data)
             @ (if graph_copying then
                  PTFI (''Graph *copy = popGraphs('' @ show_int (restore_point data)
                        @ '');\<newline>'') (indent data)
                  @ PTFI ''freeGraph(copy);\<newline>'' (indent data)
                else
                  PTFI (''discardChanges(restore_point'' @ show_int (restore_point data)
                        @ '');\<newline>'') (indent data)))
        else [])
     @ PTFI ''break;\<newline>'' (indent data)"

text \<open>
  The text that \<open>generateBranchStatement\<close> writes, given the data of the branch, the
  data \<open>cd\<close> of its condition and what the calls on the condition, the then branch and
  the else branch write.
\<close>

definition branch_code ::
  "bool \<Rightarrow> CommandData \<Rightarrow> CommandData \<Rightarrow> string list \<Rightarrow> string list \<Rightarrow> string list
     \<Rightarrow> string list" where
  "branch_code graph_copying data cd condition_code then_code else_code =
     (let new_data = data\<lparr>indent := indent data + 3\<rparr>
      in (if context cd = IF_BODY then PTFI ''/* If Statement */\<newline>'' (indent data)
          else PTFI ''/* Try Statement */\<newline>'' (indent data))
         @ PTFI ''/* Condition */\<newline>'' (indent data)
         @ capture_restore_point graph_copying (indent data) (restore_point cd)
         @ PTFI ''do\<newline>'' (indent data)
         @ PTFI ''{\<newline>'' (indent data)
         @ condition_code
         @ PTFI ''} while(false);\<newline>\<newline>'' (indent data)
         @ (if context cd = IF_BODY then
              (if restore_point cd \<ge> 0 then
                 (if graph_copying
                  then PTFI (''host = popGraphs('' @ show_int (restore_point cd)
                             @ '');\<newline>'') (indent data)
                  else PTFI (''undoChanges(host, restore_point''
                             @ show_int (restore_point cd) @ '');\<newline>'') (indent data))
               else [])
            else [])
         @ PTFI ''/* Then Branch */\<newline>'' (indent data)
         @ PTFI ''if(success)\<newline>'' (indent data)
         @ PTFI ''{\<newline>'' (indent data)
         @ (if context cd = TRY_BODY \<and> restore_point cd \<ge> 0
            then PTFI (''discardChanges(restore_point'' @ show_int (restore_point cd)
                       @ '');\<newline>'') (indent new_data)
            else [])
         @ then_code
         @ PTFI ''}\<newline>'' (indent data)
         @ PTFI ''/* Else Branch */\<newline>'' (indent data)
         @ PTFI ''else\<newline>'' (indent data)
         @ PTFI ''{\<newline>'' (indent data)
         @ (if context cd = TRY_BODY then
              (if restore_point cd \<ge> 0 then
                 (if graph_copying
                  then PTFI (''host = popGraphs('' @ show_int (restore_point cd)
                             @ '');\<newline>'') (indent new_data)
                  else PTFI (''undoChanges(host, restore_point''
                             @ show_int (restore_point cd) @ '');\<newline>'')
                            (indent new_data))
               else [])
            else [])
         @ PTFI ''success = true;\<newline>'' (indent new_data)
         @ else_code
         @ PTFI ''}\<newline>'' (indent data)
         @ (if context data = IF_BODY \<or> context data = TRY_BODY
            then PTFI ''break;\<newline>'' (indent data) else []))"

text \<open>
  The text that \<open>generateLoopStatement\<close> writes, given the data of the loop, the data
  \<open>ld\<close> of its body and what the call on the body writes.
\<close>

definition loop_code :: "bool \<Rightarrow> CommandData \<Rightarrow> CommandData \<Rightarrow> string list \<Rightarrow> string list" where
  "loop_code graph_copying data ld body_code =
     PTFI ''/* Loop Statement */\<newline>'' (indent data)
     @ capture_restore_point graph_copying (indent data) (restore_point ld)
     @ PTFI ''while(success)\<newline>'' (indent data)
     @ PTFI ''{\<newline>'' (indent data)
     @ body_code
     @ (if restore_point ld \<ge> 0 then
          (if loop_depth ld > 1 then
             PTFI ''/* Update restore point for next iteration of inner loop. */\<newline>''
                  (indent data + 3)
             @ PTFI (''if(success) restore_point'' @ show_int (restore_point ld)
                     @ '' = topOfGraphChangeStack();\<newline>'') (indent data + 3)
           else
             PTFI ''/* Graph changes from loop body may not have been used.\<newline>''
                  (indent data + 3)
             @ PTFI ''   Discard them so that future graph roll backs are uncorrupted. */\<newline>''
                    (indent data + 3)
             @ (if graph_copying then
                  PTFI ''if(success)\<newline>'' (indent data + 3)
                  @ PTFI ''{\<newline>'' (indent data + 3)
                  @ PTFI (''Graph *copy = popGraphs(''
                          @ show_int (restore_point ld) @ '');\<newline>'')
                         (indent data + 6)
                  @ PTFI ''freeGraph(copy);\<newline>'' (indent data + 6)
                  @ PTFI ''}\<newline>'' (indent data + 3)
                else
                  PTFI (''if(success) discardChanges(restore_point''
                        @ show_int (restore_point ld) @ '');\<newline>'')
                       (indent data + 3)))
        else [])
     @ PTFI ''}\<newline>'' (indent data)
     @ PTFI ''success = true;\<newline>'' (indent data)"

text \<open>
  The code generator proper. A command is generated with the data of its caller and the
  current \<open>restore_point_count\<close>; the result is the code emitted and the counter after
  it, or the error that stopped the generator (the text written before the process
  stops is not kept). \<open>generateBranchStatement\<close> and \<open>generateLoopStatement\<close> receive
  the fields of the command they are called on. The calls on the subcommands are made in
  the order of the source, which is the order in which their code is written. A loop
  whose body is a null command only prints a warning on the error stream, which is not
  part of the output.
\<close>

function generateProgramCode ::
      "bool \<Rightarrow> GPCommand \<Rightarrow> CommandData \<Rightarrow> int \<Rightarrow> error + (string list \<times> int)"
  and generateCommands ::
      "bool \<Rightarrow> GPCommand list \<Rightarrow> CommandData \<Rightarrow> int \<Rightarrow> error + (string list \<times> int)"
  and generateBranchStatement ::
      "bool \<Rightarrow> BranchType \<Rightarrow> GPCommand \<Rightarrow> GPCommand \<Rightarrow> GPCommand \<Rightarrow> CommandData \<Rightarrow> int
         \<Rightarrow> error + (string list \<times> int)"
  and generateLoopStatement ::
      "bool \<Rightarrow> GPCommand \<Rightarrow> CommandData \<Rightarrow> int \<Rightarrow> error + (string list \<times> int)"
where
  "generateProgramCode graph_copying (COMMAND_SEQUENCE commands) data n =
     generateCommands graph_copying commands data n"
| "generateProgramCode graph_copying (RULE_CALL rc) data n =
     Inr (PTFI ''/* Rule Call */\<newline>'' (indent data)
          @ generateRuleCall graph_copying (rule_name rc) (empty_lhs (rule rc))
                             (is_predicate (rule rc)) True data, n)"
| "generateProgramCode graph_copying (RULE_SET_CALL rule_set) data n =
     Inr (PTFI ''/* Rule Set Call */\<newline>'' (indent data)
          @ PTFI ''do\<newline>'' (indent data)
          @ PTFI ''{\<newline>'' (indent data)
          @ (let new_data = data\<lparr>indent := indent data + 3\<rparr>
             in generateRuleSet graph_copying rule_set new_data)
          @ PTFI ''} while(false);\<newline>'' (indent data), n)"
| "generateProgramCode graph_copying (PROCEDURE_CALL commands) data n =
     generateProgramCode graph_copying commands data n"
| "generateProgramCode graph_copying (COND_BRANCH ty condition then_command else_command) data n =
     generateBranchStatement graph_copying ty condition then_command else_command data n"
| "generateProgramCode graph_copying (ALAP_STATEMENT loop_body) data n =
     generateLoopStatement graph_copying loop_body data n"
| "generateProgramCode graph_copying (PROGRAM_OR left_command right_command) data n =
     (let new_data = data\<lparr>indent := indent data + 3\<rparr>
      in case generateProgramCode graph_copying left_command new_data n of
           Inl e \<Rightarrow> Inl e
         | Inr (left_code, n1) \<Rightarrow>
      (case generateProgramCode graph_copying right_command new_data n1 of
           Inl e \<Rightarrow> Inl e
         | Inr (right_code, n2) \<Rightarrow> Inr (or_code data left_code right_code, n2)))"
| "generateProgramCode graph_copying SKIP_STATEMENT data n =
     Inr (PTFI ''/* Skip Statement */\<newline>'' (indent data)
          @ PTFI ''success = true;\<newline>'' (indent data), n)"
| "generateProgramCode graph_copying FAIL_STATEMENT data n =
     Inr (PTFI ''/* Fail Statement */\<newline>'' (indent data)
          @ generateFailureCode graph_copying None data, n)"
| "generateProgramCode graph_copying (BREAK_STATEMENT inner_loop) data n =
     Inr (break_code graph_copying inner_loop data, n)"
| "generateCommands graph_copying [] data n = Inr ([], n)"
| "generateCommands graph_copying (command # commands) data n =
     (let new_data = data
      in case generateProgramCode graph_copying command new_data n of
           Inl e \<Rightarrow> Inl e
         | Inr (code, n1) \<Rightarrow>
      (case generateCommands graph_copying commands data n1 of
           Inl e \<Rightarrow> Inl e
         | Inr (rest, n2) \<Rightarrow>
             Inr (code
                  @ (if context data = LOOP_BODY \<and> commands \<noteq> []
                     then PTFI ''if(!success) break;\<newline>\<newline>'' (indent data) else [])
                  @ rest, n2)))"
| "generateBranchStatement graph_copying ty condition then_command else_command data n =
     (let cdn = condition_data ty condition then_command else_command data n;
          cd = fst cdn;
          new_data = data\<lparr>indent := indent data + 3\<rparr>
      in case generateProgramCode graph_copying condition cd (snd cdn) of
           Inl e \<Rightarrow> Inl e
         | Inr (condition_code, n1) \<Rightarrow>
      (case generateProgramCode graph_copying then_command new_data n1 of
           Inl e \<Rightarrow> Inl e
         | Inr (then_code, n2) \<Rightarrow>
      (case generateProgramCode graph_copying else_command new_data n2 of
           Inl e \<Rightarrow> Inl e
         | Inr (else_code, n3) \<Rightarrow>
             Inr (branch_code graph_copying data cd condition_code then_code else_code, n3))))"
| "generateLoopStatement graph_copying loop_body data n =
     (if neverFails loop_body then Inl NonterminationError
      else
        (let ldn = loop_data loop_body data n;
             ld = fst ldn
         in case generateProgramCode graph_copying loop_body ld (snd ldn) of
              Inl e \<Rightarrow> Inl e
            | Inr (body_code, n1) \<Rightarrow> Inr (loop_code graph_copying data ld body_code, n1)))"
  by pat_completeness auto

text \<open>
  Every call is on a part of the command: a command counts twice its size, the list of a
  sequence and the fields of a branch or of a loop one more than twice theirs.
\<close>

termination
  apply (relation "measure (\<lambda>x. case x of
      Inl (Inl (gc, c, d, n)) \<Rightarrow> 2 * size c
    | Inl (Inr (gc, cs, d, n)) \<Rightarrow> 2 * size_list size cs + 1
    | Inr (Inl (gc, ty, c, t, e, d, n)) \<Rightarrow> 2 * (size c + size t + size e) + 1
    | Inr (Inr (gc, b, d, n)) \<Rightarrow> 2 * size b + 1)")
  apply simp_all
  done

text \<open>
  The number of restore points that the generator allocates for a command, that is, the
  number of times \<open>restore_point_count++\<close> is executed when the generator runs through
  the command without stopping: once for a branch whose condition gets a restore point,
  once for a loop whose body gets one, and what the subcommands allocate. A procedure
  call allocates what the inlined body does.
\<close>

definition branch_allocates :: "BranchType \<Rightarrow> GPCommand \<Rightarrow> GPCommand \<Rightarrow> GPCommand \<Rightarrow> bool" where
  "branch_allocates ty condition then_command else_command =
     (if ty = IF_STATEMENT then \<not> singleRule condition
      else \<not> (nullCommand condition
              \<or> (singleRule condition \<and> nullCommand then_command \<and> nullCommand else_command)))"

fun allocations :: "GPCommand \<Rightarrow> nat"
  and allocations_commands :: "GPCommand list \<Rightarrow> nat" where
  "allocations (COMMAND_SEQUENCE commands) = allocations_commands commands"
| "allocations (RULE_CALL rc) = 0"
| "allocations (RULE_SET_CALL rule_set) = 0"
| "allocations (PROCEDURE_CALL commands) = allocations commands"
| "allocations (COND_BRANCH ty condition then_command else_command) =
     (if branch_allocates ty condition then_command else_command then 1 else 0)
     + allocations condition + allocations then_command + allocations else_command"
| "allocations (ALAP_STATEMENT loop_body) =
     (if singleRule loop_body then 0 else 1) + allocations loop_body"
| "allocations (PROGRAM_OR left_command right_command) =
     allocations left_command + allocations right_command"
| "allocations SKIP_STATEMENT = 0"
| "allocations FAIL_STATEMENT = 0"
| "allocations (BREAK_STATEMENT inner_loop) = 0"
| "allocations_commands [] = 0"
| "allocations_commands (command # commands) =
     allocations command + allocations_commands commands"

subsection \<open>The runtime main function\<close>

text \<open>
  The three ways \<open>generateMorphismCode\<close> is called: with \<open>'d'\<close> for the declarations
  of the morphism variables, \<open>'m'\<close> for the calls to \<open>makeMorphism\<close> and \<open>'f'\<close> for the
  function \<open>freeMorphisms\<close>. The source asserts that the argument is one of the three.
\<close>

datatype MorphismCode = Declare | Make | Free

function generateMorphismCode :: "GPDeclaration list \<Rightarrow> MorphismCode \<Rightarrow> bool \<Rightarrow> string list"
  and generateMorphismDecls :: "GPDeclaration list \<Rightarrow> MorphismCode \<Rightarrow> string list"
where
  "generateMorphismCode declarations ty first_call =
     (if ty = Free \<and> first_call then PTF ''static void freeMorphisms(void)\<newline>{\<newline>'' else [])
     @ generateMorphismDecls declarations ty
     @ (if ty = Declare \<or> ty = Make then PTF ''\<newline>''
        else if first_call then PTF ''}\<newline>\<newline>'' else [])"
| "generateMorphismDecls [] ty = []"
| "generateMorphismDecls (decl # declarations) ty =
     (case decl of
        MAIN_DECLARATION main_program \<Rightarrow> []
      | PROCEDURE_DECLARATION local_decls \<Rightarrow>
          (if local_decls \<noteq> [] then generateMorphismCode local_decls ty False else [])
      | RULE_DECLARATION r \<Rightarrow>
          (if ty = Declare then
             PTF (''#include '' @ dq @ name r @ ''.h'' @ dq @ ''\<newline>'')
             @ PTF (''Morphism *M_'' @ name r @ '' = NULL;\<newline>'')
           else [])
          @ (if ty = Make then
               PTFI (''M_'' @ name r @ '' = makeMorphism('' @ show_int (left_nodes r) @ '', ''
                     @ show_int (left_edges r) @ '', '' @ show_int (variable_count r)
                     @ '');\<newline>'') 3
             else [])
          @ (if ty = Free then PTFI (''freeMorphism(M_'' @ name r @ '');\<newline>'') 3 else []))
     @ generateMorphismDecls declarations ty"
  by pat_completeness auto

termination
  apply (relation "measure (\<lambda>x. case x of
      Inl (ds, ty, first_call) \<Rightarrow> 2 * size_list size ds + 1
    | Inr (ds, ty) \<Rightarrow> 2 * size_list size ds)")
  apply simp_all
  done

definition HOST_NODE_SIZE :: int where
  "HOST_NODE_SIZE = 128"

definition HOST_EDGE_SIZE :: int where
  "HOST_EDGE_SIZE = 128"

text \<open>
  The loop of \<open>generateRuntimeMain\<close> over the declarations: the code of every main
  declaration, generated from the initial data.
\<close>

definition initialData :: CommandData where
  "initialData = \<lparr>context = MAIN_BODY, loop_depth = 0, record_changes = False,
                   restore_point = - 1, indent = 3\<rparr>"

fun generateMainDeclarations ::
  "bool \<Rightarrow> GPDeclaration list \<Rightarrow> int \<Rightarrow> error + (string list \<times> int)" where
  "generateMainDeclarations graph_copying [] n = Inr ([], n)"
| "generateMainDeclarations graph_copying (decl # iterator) n =
     (case (case decl of
              MAIN_DECLARATION main_program \<Rightarrow>
                generateProgramCode graph_copying main_program initialData n
            | PROCEDURE_DECLARATION local_decls \<Rightarrow> Inr ([], n)
            | RULE_DECLARATION r \<Rightarrow> Inr ([], n)) of
        Inl e \<Rightarrow> Inl e
      | Inr (code, n1) \<Rightarrow>
     (case generateMainDeclarations graph_copying iterator n1 of
        Inl e \<Rightarrow> Inl e
      | Inr (rest, n2) \<Rightarrow> Inr (code @ rest, n2)))"

text \<open>The restore points allocated for the main declarations of a declaration list.\<close>

fun allocations_declarations :: "GPDeclaration list \<Rightarrow> nat" where
  "allocations_declarations [] = 0"
| "allocations_declarations (decl # iterator) =
     (case decl of
        MAIN_DECLARATION main_program \<Rightarrow> allocations main_program
      | PROCEDURE_DECLARATION local_decls \<Rightarrow> 0
      | RULE_DECLARATION r \<Rightarrow> 0)
     + allocations_declarations iterator"

text \<open>The function \<open>garbageCollect\<close> of the emitted program.\<close>

definition garbageCollect_code :: "bool \<Rightarrow> bool \<Rightarrow> string list" where
  "garbageCollect_code graph_copying list_hashing =
     PTF ''static void garbageCollect(void)\<newline>''
     @ PTF ''{\<newline>''
     @ PTF ''   freeGraph(host);\<newline>''
     @ (if list_hashing then PTF ''   freeHostListStore();\<newline>'' else [])
     @ PTF ''   freeMorphisms();\<newline>''
     @ (if graph_copying then PTF ''   freeGraphStack();\<newline>''
        else PTF ''   freeGraphChangeStack();\<newline>'')
     @ PTF ''   closeLogFile();\<newline>''
     @ PTF ''}\<newline>\<newline>''"

text \<open>The function \<open>buildHostGraph\<close> of the emitted program.\<close>

definition buildHostGraph_code :: "string list" where
  "buildHostGraph_code =
     PTF ''static Graph *buildHostGraph(char *host_file)\<newline>''
     @ PTF ''{\<newline>''
     @ PTFI (''yyin = fopen(host_file, '' @ dq @ ''r'' @ dq @ '');\<newline>'') 3
     @ PTFI ''if(yyin == NULL)\<newline>'' 3
     @ PTFI ''{\<newline>'' 3
     @ PTFI ''perror(host_file);\<newline>'' 6
     @ PTFI ''return NULL;\<newline>'' 6
     @ PTFI ''}\<newline>\<newline>'' 3
     @ PTFI (''host = newGraph('' @ show_int HOST_NODE_SIZE @ '', '' @ show_int HOST_EDGE_SIZE
             @ '');\<newline>'') 3
     @ PTFI (''node_map = calloc('' @ show_int HOST_NODE_SIZE @ '', sizeof(int));\<newline>'') 3
     @ PTFI ''if(node_map == NULL)\<newline>'' 3
     @ PTFI ''{\<newline>'' 3
     @ PTFI ''freeGraph(host);\<newline>'' 6
     @ PTFI ''return NULL;\<newline>'' 6
     @ PTFI ''}\<newline>'' 3
     @ PTFI ''/* The parser populates the host graph using node_map to add edges with\<newline>'' 3
     @ PTFI '' * the correct source and target indices. */\<newline>'' 3
     @ PTFI ''int result = yyparse();\<newline>'' 3
     @ PTFI ''free(node_map);\<newline>'' 3
     @ PTFI ''fclose(yyin);\<newline>'' 3
     @ PTFI ''if(result == 0) return host;\<newline>'' 3
     @ PTFI ''else\<newline>'' 3
     @ PTFI ''{\<newline>'' 3
     @ PTFI ''freeGraph(host);\<newline>'' 6
     @ PTFI ''return NULL;\<newline>'' 6
     @ PTFI ''}\<newline>'' 3
     @ PTF ''}\<newline>\<newline>''"

text \<open>
  The head of the emitted \<open>main\<close>: the execution environment, the check of the
  argument, the host graph and the output file.
\<close>

definition main_entry_code :: "string list" where
  "main_entry_code =
     PTF ''int main(int argc, char **argv)\<newline>''
     @ PTF ''{\<newline>''
     @ PTFI ''srand(time(NULL));\<newline>'' 3
     @ PTFI (''openLogFile('' @ dq @ ''gp2.log'' @ dq @ '');\<newline>\<newline>'') 3
     @ PTFI ''if(argc != 2)\<newline>'' 3
     @ PTFI ''{\<newline>'' 3
     @ PTFI (''fprintf(stderr, '' @ dq @ ''Error: missing <host-file> argument.'' @ bs @ ''n''
             @ dq @ '');\<newline>'') 6
     @ PTFI ''return 0;\<newline>'' 6
     @ PTFI ''}\<newline>\<newline>'' 3
     @ PTFI ''host = buildHostGraph(argv[1]);\<newline>'' 3
     @ PTFI ''if(host == NULL)\<newline>'' 3
     @ PTFI ''{\<newline>'' 3
     @ PTFI (''fprintf(stderr, '' @ dq @ ''Error parsing host graph file.'' @ bs @ ''n'' @ dq
             @ '');\<newline>'') 6
     @ PTFI ''return 0;\<newline>'' 6
     @ PTFI ''}\<newline>'' 3
     @ PTFI (''FILE *output_file = fopen('' @ dq @ ''gp2.output'' @ dq @ '', '' @ dq @ ''w'' @ dq
             @ '');\<newline>'') 3
     @ PTFI ''if(output_file == NULL)\<newline>'' 3
     @ PTFI ''{\<newline>'' 3
     @ PTFI (''perror('' @ dq @ ''gp2.output'' @ dq @ '');\<newline>'') 6
     @ PTFI ''exit(1);\<newline>'' 6
     @ PTFI ''}\<newline>'' 3"

text \<open>The end of the emitted \<open>main\<close>: the output graph, the teardown and the return.\<close>

definition main_exit_code :: "string list" where
  "main_exit_code =
     PTF ''   printGraph(host, output_file);\<newline>''
     @ PTF (''   printf('' @ dq @ ''Output graph saved to file gp2.output'' @ bs @ ''n'' @ dq
            @ '');\<newline>'')
     @ PTF ''   garbageCollect();\<newline>''
     @ PTF ''   fclose(output_file);\<newline>''
     @ PTF ''   return 0;\<newline>''
     @ PTF ''}\<newline>\<newline>''"

text \<open>
  \<open>generateRuntimeMain\<close> writes the file main.c of the output directory. \<open>fopen_ok\<close>
  tells whether the file could be opened, \<open>list_hashing\<close> whether the macro
  \<open>LIST_HASHING\<close> is defined, and \<open>n\<close> is the value of \<open>restore_point_count\<close> when the
  function is entered. The result is the text written and the counter on return.
\<close>

definition generateRuntimeMain ::
  "bool \<Rightarrow> bool \<Rightarrow> bool \<Rightarrow> GPDeclaration list \<Rightarrow> int \<Rightarrow> error + (string list \<times> int)" where
  "generateRuntimeMain graph_copying list_hashing fopen_ok declarations n =
     (if \<not> fopen_ok then Inl FileOpenError
      else case generateMainDeclarations graph_copying declarations n of
             Inl e \<Rightarrow> Inl e
           | Inr (program_code, n1) \<Rightarrow>
               Inr (PTF ''#include <time.h>\<newline>''
                    @ PTF (''#include '' @ dq @ ''common.h'' @ dq @ ''\<newline>'')
                    @ PTF (''#include '' @ dq @ ''debug.h'' @ dq @ ''\<newline>'')
                    @ PTF (''#include '' @ dq @ ''graph.h'' @ dq @ ''\<newline>'')
                    @ PTF (''#include '' @ dq @ ''graphStacks.h'' @ dq @ ''\<newline>'')
                    @ PTF (''#include '' @ dq @ ''parser.h'' @ dq @ ''\<newline>'')
                    @ PTF (''#include '' @ dq @ ''morphism.h'' @ dq @ ''\<newline>\<newline>'')
                    @ generateMorphismCode declarations Declare True
                    @ generateMorphismCode declarations Free True
                    @ garbageCollect_code graph_copying list_hashing
                    @ PTF ''Graph *host = NULL;\<newline>''
                    @ PTF ''int *node_map = NULL;\<newline>\<newline>''
                    @ buildHostGraph_code
                    @ PTF ''bool success = true;\<newline>\<newline>''
                    @ main_entry_code
                    @ generateMorphismCode declarations Make True
                    @ program_code
                    @ main_exit_code, n1))"

subsection \<open>The calls of the generator and the restore points live at them\<close>

text \<open>
  A call of \<open>generateProgramCode\<close> is described by the command, the data it is emitted
  with, the value of \<open>restore_point_count\<close> on entry and, as a ghost, the restore
  points that are live in the emitted program where the code of the command is placed,
  innermost first. A restore point is captured in front of a condition or of a loop when
  the data of the condition or of the loop body has \<open>restore_point >= 0\<close>. That of an
  if statement is restored right after the condition, that of a try statement is
  discarded or undone on entry of the then or else branch, and that of a loop is
  released at the end of the loop body: its lifetime is the condition, or the loop body.
\<close>

type_synonym call = "GPCommand \<times> CommandData \<times> int \<times> int list"

definition enter_frame :: "CommandData \<Rightarrow> int list \<Rightarrow> int list" where
  "enter_frame body_data live =
     (if restore_point body_data \<ge> 0 then restore_point body_data # live else live)"

text \<open>
  \<open>subcall graph_copying a b\<close>: the call \<open>a\<close> of \<open>generateProgramCode\<close> makes the
  call \<open>b\<close>, directly or through \<open>generateBranchStatement\<close> or
  \<open>generateLoopStatement\<close>. The counter of a later call is the one returned by the
  calls before it.
\<close>

inductive subcall :: "bool \<Rightarrow> call \<Rightarrow> call \<Rightarrow> bool" for graph_copying :: bool where
  sequence_element:
    "generateCommands graph_copying before data n = Inr (code, n1) \<Longrightarrow>
     subcall graph_copying (COMMAND_SEQUENCE (before @ command # rest), data, n, live)
                           (command, data, n1, live)"
| procedure_body:
    "subcall graph_copying (PROCEDURE_CALL commands, data, n, live) (commands, data, n, live)"
| branch_condition:
    "condition_data ty condition then_command else_command data n = (cd, n1) \<Longrightarrow>
     subcall graph_copying (COND_BRANCH ty condition then_command else_command, data, n, live)
                           (condition, cd, n1, enter_frame cd live)"
| branch_then:
    "condition_data ty condition then_command else_command data n = (cd, n1) \<Longrightarrow>
     generateProgramCode graph_copying condition cd n1 = Inr (condition_code, n2) \<Longrightarrow>
     subcall graph_copying (COND_BRANCH ty condition then_command else_command, data, n, live)
                           (then_command, data\<lparr>indent := indent data + 3\<rparr>, n2, live)"
| branch_else:
    "condition_data ty condition then_command else_command data n = (cd, n1) \<Longrightarrow>
     generateProgramCode graph_copying condition cd n1 = Inr (condition_code, n2) \<Longrightarrow>
     generateProgramCode graph_copying then_command (data\<lparr>indent := indent data + 3\<rparr>) n2
       = Inr (then_code, n3) \<Longrightarrow>
     subcall graph_copying (COND_BRANCH ty condition then_command else_command, data, n, live)
                           (else_command, data\<lparr>indent := indent data + 3\<rparr>, n3, live)"
| loop_body:
    "\<not> neverFails loop_body \<Longrightarrow> loop_data loop_body data n = (ld, n1) \<Longrightarrow>
     subcall graph_copying (ALAP_STATEMENT loop_body, data, n, live)
                           (loop_body, ld, n1, enter_frame ld live)"
| or_left:
    "subcall graph_copying (PROGRAM_OR left_command right_command, data, n, live)
                           (left_command, data\<lparr>indent := indent data + 3\<rparr>, n, live)"
| or_right:
    "generateProgramCode graph_copying left_command (data\<lparr>indent := indent data + 3\<rparr>) n
       = Inr (left_code, n1) \<Longrightarrow>
     subcall graph_copying (PROGRAM_OR left_command right_command, data, n, live)
                           (right_command, data\<lparr>indent := indent data + 3\<rparr>, n1, live)"

text \<open>
  Two properties of a call. Its restore point, when it has one, is the innermost live
  restore point. And the call is within the budget \<open>bound\<close> of a run that started at the
  counter \<open>n0\<close>: the counter has not decreased, what the command still allocates fits
  below the bound, and the live restore points are distinct, not below \<open>n0\<close> and below
  the counter.
\<close>

definition innermost :: "CommandData \<Rightarrow> int list \<Rightarrow> bool" where
  "innermost data live \<longleftrightarrow>
     (restore_point data \<ge> 0 \<longrightarrow> live \<noteq> [] \<and> hd live = restore_point data)"

definition within_budget :: "int \<Rightarrow> int \<Rightarrow> call \<Rightarrow> bool" where
  "within_budget n0 bound a \<longleftrightarrow>
     (case a of (command, data, n, live) \<Rightarrow>
        n0 \<le> n \<and> n + int (allocations command) \<le> bound
        \<and> distinct live \<and> (\<forall>f\<in>set live. n0 \<le> f \<and> f < n))"

subsection \<open>Descriptions taken from the specification\<close>

text \<open>
  Invariant 2 of the specification (section 3): \<open>restore_point >= 0\<close> in the data of a
  subcommand iff some enclosing branch or loop established a frame whose lifetime
  encloses the subcommand.
\<close>

definition frame_invariant :: "CommandData \<Rightarrow> int list \<Rightarrow> bool" where
  "frame_invariant data live \<longleftrightarrow> (restore_point data \<ge> 0 \<longleftrightarrow> live \<noteq> [])"

text \<open>
  Invariant 4 of the specification (section 3), first half: the counter is
  pre-incremented for each allocation, that is, an allocation made at the counter \<open>n\<close>
  increments the counter and gives the new restore point the incremented value.
\<close>

definition pre_incremented :: "int \<Rightarrow> CommandData \<times> int \<Rightarrow> bool" where
  "pre_incremented n allocation \<longleftrightarrow>
     snd allocation = n + 1 \<and> restore_point (fst allocation) = snd allocation"

text \<open>
  The code of a command sequence as the specification describes it: the code of the
  elements in order, with the check of the success flag after every element except the
  last when \<open>check\<close> holds.
\<close>

fun sequence_code :: "bool \<Rightarrow> int \<Rightarrow> string list list \<Rightarrow> string list" where
  "sequence_code check ind [] = []"
| "sequence_code check ind [code] = code"
| "sequence_code check ind (code # codes) =
     code @ (if check then [replicate (nat ind) CHR '' '' @ ''if(!success) break;\<newline>\<newline>''] else [])
     @ sequence_code check ind codes"

text \<open>
  The generator invoked twice in the same process on the same declarations: the second
  invocation finds \<open>restore_point_count\<close> as the first left it.
\<close>

definition generate_twice ::
  "bool \<Rightarrow> bool \<Rightarrow> GPDeclaration list \<Rightarrow> int \<Rightarrow> error + (string list \<times> string list)" where
  "generate_twice graph_copying list_hashing declarations n =
     (case generateRuntimeMain graph_copying list_hashing True declarations n of
        Inl e \<Rightarrow> Inl e
      | Inr (first_output, n1) \<Rightarrow>
     (case generateRuntimeMain graph_copying list_hashing True declarations n1 of
        Inl e \<Rightarrow> Inl e
      | Inr (second_output, n2) \<Rightarrow> Inr (first_output, second_output)))"

subsection \<open>Example programs\<close>

text \<open>Two rules with a non-empty left-hand side that change the host graph.\<close>

definition r1 :: RuleCall where
  "r1 = \<lparr>rule_name = ''r1'',
         rule = \<lparr>name = ''r1'', left_nodes = 1, left_edges = 0, variable_count = 0,
                 empty_lhs = False, is_predicate = False\<rparr>\<rparr>"

definition r2 :: RuleCall where
  "r2 = \<lparr>rule_name = ''r2'',
         rule = \<lparr>name = ''r2'', left_nodes = 2, left_edges = 1, variable_count = 0,
                 empty_lhs = False, is_predicate = False\<rparr>\<rparr>"

text \<open>\<open>try (r1; r2)\<close>, that is \<open>try (r1; r2) then skip else skip\<close>.\<close>

definition try_r1_r2 :: GPCommand where
  "try_r1_r2 = COND_BRANCH TRY_STATEMENT (COMMAND_SEQUENCE [RULE_CALL r1, RULE_CALL r2])
                           SKIP_STATEMENT SKIP_STATEMENT"

text \<open>\<open>if (r1; r2) then skip else skip\<close>.\<close>

definition if_r1_r2 :: GPCommand where
  "if_r1_r2 = COND_BRANCH IF_STATEMENT (COMMAND_SEQUENCE [RULE_CALL r1, RULE_CALL r2])
                          SKIP_STATEMENT SKIP_STATEMENT"


text \<open>\<open>(r1; r2!)!\<close>.\<close>

definition loop_with_inner_loop :: GPCommand where
  "loop_with_inner_loop =
     ALAP_STATEMENT (COMMAND_SEQUENCE [RULE_CALL r1, ALAP_STATEMENT (RULE_CALL r2)])"

text \<open>\<open>(r1; (r1; r2)!)!\<close>.\<close>

definition nested_recording_loops :: GPCommand where
  "nested_recording_loops =
     ALAP_STATEMENT (COMMAND_SEQUENCE
       [RULE_CALL r1, ALAP_STATEMENT (COMMAND_SEQUENCE [RULE_CALL r1, RULE_CALL r2])])"

text \<open>A third rule of the same kind.\<close>

definition r3 :: RuleCall where
  "r3 = \<lparr>rule_name = ''r3'',
         rule = \<lparr>name = ''r3'', left_nodes = 1, left_edges = 1, variable_count = 0,
                 empty_lhs = False, is_predicate = False\<rparr>\<rparr>"

text \<open>\<open>try ({r1, r2}; r3)\<close>: a rule set call followed by a rule call, as a condition.\<close>

definition try_rule_set_then_rule :: GPCommand where
  "try_rule_set_then_rule =
     COND_BRANCH TRY_STATEMENT (COMMAND_SEQUENCE [RULE_SET_CALL [r1, r2], RULE_CALL r3])
                 SKIP_STATEMENT SKIP_STATEMENT"

text \<open>\<open>if r1 then r2 else skip; r2!\<close>: a branch and a loop that need no restore point.\<close>

definition branch_and_loop_without_restore_point :: GPCommand where
  "branch_and_loop_without_restore_point =
     COMMAND_SEQUENCE [COND_BRANCH IF_STATEMENT (RULE_CALL r1) (RULE_CALL r2) SKIP_STATEMENT,
                       ALAP_STATEMENT (RULE_CALL r2)]"

text \<open>A program: the declarations of the two rules and a main declaration.\<close>

definition program :: "GPCommand \<Rightarrow> GPDeclaration list" where
  "program main_program =
     [RULE_DECLARATION (rule r1), RULE_DECLARATION (rule r2), MAIN_DECLARATION main_program]"

section \<open>Properties\<close>

subsection \<open>The counter of restore points\<close>

text \<open>
  As long as the counter stays below the largest \<open>int\<close>, a command leaves it increased
  by the number of restore points it allocates; a command that allocates none leaves it
  unchanged and emits the same code from every value of the counter.
\<close>

lemma increment_below_INT_MAX:
  "n < INT_MAX \<Longrightarrow> increment_restore_point_count n = n + 1"
  by (simp add: increment_restore_point_count_def)

lemma condition_data_allocation:
  "snd (condition_data ty c t e d n) =
     (if branch_allocates ty c t e then increment_restore_point_count n else n)"
  "restore_point (fst (condition_data ty c t e d n)) = (if branch_allocates ty c t e then n else - 1)"
  "\<not> branch_allocates ty c t e \<Longrightarrow>
     fst (condition_data ty c t e d n) = fst (condition_data ty c t e d m)"
  by (auto simp add: condition_data_def branch_allocates_def Let_def)

lemma loop_data_allocation:
  "snd (loop_data b d n) = (if singleRule b then n else increment_restore_point_count n)"
  "restore_point (fst (loop_data b d n)) = (if singleRule b then - 1 else n)"
  "singleRule b \<Longrightarrow> fst (loop_data b d n) = fst (loop_data b d m)"
  by (auto simp add: loop_data_def Let_def)

lemma counter_exact:
  "n + int (allocations c) \<le> INT_MAX \<Longrightarrow> generateProgramCode gc c d n = Inr (out, n')
     \<Longrightarrow> n' = n + int (allocations c)"
  "n + int (allocations_commands cs) \<le> INT_MAX \<Longrightarrow> generateCommands gc cs d n = Inr (out, n')
     \<Longrightarrow> n' = n + int (allocations_commands cs)"
  "n + int (allocations (COND_BRANCH ty co t e)) \<le> INT_MAX
     \<Longrightarrow> generateBranchStatement gc ty co t e d n = Inr (out, n')
     \<Longrightarrow> n' = n + int (allocations (COND_BRANCH ty co t e))"
  "n + int (allocations (ALAP_STATEMENT b)) \<le> INT_MAX
     \<Longrightarrow> generateLoopStatement gc b d n = Inr (out, n')
     \<Longrightarrow> n' = n + int (allocations (ALAP_STATEMENT b))"
proof (induction gc c d n and gc cs d n and gc ty co t e d n and gc b d n
       arbitrary: out n' and out n' and out n' and out n'
       rule: generateProgramCode_generateCommands_generateBranchStatement_generateLoopStatement.induct)
  case (1 gc cs d n)
  show ?case using "1.prems" "1.IH"[of out n'] by simp
next
  case (4 gc c d n)
  show ?case using "4.prems" "4.IH"[of out n'] by simp
next
  case (5 gc ty co t e d n)
  show ?case using "5.prems" "5.IH"[of out n'] by simp
next
  case (6 gc b d n)
  show ?case using "6.prems" "6.IH"[of out n'] by simp
next
  case (7 gc l r d n)
  let ?nd = "d\<lparr>indent := indent d + 3\<rparr>"
  from "7.prems"(2) obtain c1 n1 c2 where
    a: "generateProgramCode gc l ?nd n = Inr (c1, n1)"
    and b: "generateProgramCode gc r ?nd n1 = Inr (c2, n')"
    by (auto simp: Let_def split: sum.splits prod.splits)
  have ba: "n + int (allocations l) \<le> INT_MAX" using "7.prems"(1) by simp
  have n1: "n1 = n + int (allocations l)" by (rule "7.IH"(1)[OF refl ba a])
  have bb: "n1 + int (allocations r) \<le> INT_MAX" using "7.prems"(1) n1 by simp
  have "n' = n1 + int (allocations r)" by (rule "7.IH"(2)[OF refl a refl bb b])
  then show ?case using n1 by simp
next
  case (12 gc c cs d n)
  from "12.prems"(2) obtain c1 n1 c2 where
    a: "generateProgramCode gc c d n = Inr (c1, n1)"
    and b: "generateCommands gc cs d n1 = Inr (c2, n')"
    by (auto simp: Let_def split: sum.splits prod.splits)
  have ba: "n + int (allocations c) \<le> INT_MAX" using "12.prems"(1) by simp
  have n1: "n1 = n + int (allocations c)" by (rule "12.IH"(1)[OF refl ba a])
  have bb: "n1 + int (allocations_commands cs) \<le> INT_MAX" using "12.prems"(1) n1 by simp
  have "n' = n1 + int (allocations_commands cs)" by (rule "12.IH"(2)[OF refl a refl bb b])
  then show ?case using n1 by simp
next
  case (13 gc ty co t e d n)
  let ?cd = "fst (condition_data ty co t e d n)"
  let ?n0 = "snd (condition_data ty co t e d n)"
  let ?nd = "d\<lparr>indent := indent d + 3\<rparr>"
  let ?k = "(if branch_allocates ty co t e then 1 else 0) :: nat"
  from "13.prems"(2) obtain c1 n1 c2 n2 c3 where
    a: "generateProgramCode gc co ?cd ?n0 = Inr (c1, n1)"
    and b: "generateProgramCode gc t ?nd n1 = Inr (c2, n2)"
    and c: "generateProgramCode gc e ?nd n2 = Inr (c3, n')"
    by (auto simp: Let_def split: sum.splits prod.splits)
  have bound: "n + int ?k + int (allocations co) + int (allocations t) + int (allocations e) \<le> INT_MAX"
    using "13.prems"(1) by simp
  have n0: "?n0 = n + int ?k"
  proof (cases "branch_allocates ty co t e")
    case True
    then have "n < INT_MAX" using bound by simp
    then show ?thesis using True
      by (simp add: condition_data_allocation(1) increment_below_INT_MAX)
  next
    case False
    then show ?thesis by (simp add: condition_data_allocation(1))
  qed
  have ba: "?n0 + int (allocations co) \<le> INT_MAX" using bound n0 by simp
  have n1: "n1 = ?n0 + int (allocations co)" by (rule "13.IH"(1)[OF refl refl refl ba a])
  have bb: "n1 + int (allocations t) \<le> INT_MAX" using bound n0 n1 by simp
  have n2: "n2 = n1 + int (allocations t)" by (rule "13.IH"(2)[OF refl refl refl a refl bb b])
  have bc: "n2 + int (allocations e) \<le> INT_MAX" using bound n0 n1 n2 by simp
  have "n' = n2 + int (allocations e)"
    by (rule "13.IH"(3)[OF refl refl refl a refl b refl bc c])
  then show ?case using n0 n1 n2 by simp
next
  case (14 gc b d n)
  let ?ld = "fst (loop_data b d n)"
  let ?n0 = "snd (loop_data b d n)"
  let ?k = "(if singleRule b then 0 else 1) :: nat"
  from "14.prems"(2) obtain c1 where
    nf: "\<not> neverFails b" and a: "generateProgramCode gc b ?ld ?n0 = Inr (c1, n')"
    by (auto simp: Let_def split: sum.splits prod.splits if_splits)
  have bound: "n + int ?k + int (allocations b) \<le> INT_MAX" using "14.prems"(1) by simp
  have n0: "?n0 = n + int ?k"
  proof (cases "singleRule b")
    case True
    then show ?thesis by (simp add: loop_data_allocation(1))
  next
    case False
    then have "n < INT_MAX" using bound by simp
    then show ?thesis using False
      by (simp add: loop_data_allocation(1) increment_below_INT_MAX)
  qed
  have ba: "?n0 + int (allocations b) \<le> INT_MAX" using bound n0 by simp
  have "n' = ?n0 + int (allocations b)" by (rule "14.IH"[OF nf refl refl ba a])
  then show ?case using n0 by simp
qed simp_all

lemma no_allocation_independent:
  "allocations c = 0 \<Longrightarrow> generateProgramCode gc c d n = Inr (out, n')
     \<Longrightarrow> n' = n \<and> generateProgramCode gc c d m = Inr (out, m)"
  "allocations_commands cs = 0 \<Longrightarrow> generateCommands gc cs d n = Inr (out, n')
     \<Longrightarrow> n' = n \<and> generateCommands gc cs d m = Inr (out, m)"
  "allocations (COND_BRANCH ty co t e) = 0
     \<Longrightarrow> generateBranchStatement gc ty co t e d n = Inr (out, n')
     \<Longrightarrow> n' = n \<and> generateBranchStatement gc ty co t e d m = Inr (out, m)"
  "allocations (ALAP_STATEMENT b) = 0
     \<Longrightarrow> generateLoopStatement gc b d n = Inr (out, n')
     \<Longrightarrow> n' = n \<and> generateLoopStatement gc b d m = Inr (out, m)"
proof (induction gc c d n and gc cs d n and gc ty co t e d n and gc b d n
       arbitrary: out n' m and out n' m and out n' m and out n' m
       rule: generateProgramCode_generateCommands_generateBranchStatement_generateLoopStatement.induct)
  case (1 gc cs d n)
  show ?case using "1.prems" "1.IH"[of out n' m] by simp
next
  case (4 gc c d n)
  show ?case using "4.prems" "4.IH"[of out n' m] by simp
next
  case (5 gc ty co t e d n)
  show ?case using "5.prems" "5.IH"[of out n' m] by simp
next
  case (6 gc b d n)
  show ?case using "6.prems" "6.IH"[of out n' m] by simp
next
  case (7 gc l r d n)
  let ?nd = "d\<lparr>indent := indent d + 3\<rparr>"
  from "7.prems"(2) obtain c1 n1 c2 where
    a: "generateProgramCode gc l ?nd n = Inr (c1, n1)"
    and b: "generateProgramCode gc r ?nd n1 = Inr (c2, n')"
    and out: "out = or_code d c1 c2"
    by (auto simp: Let_def split: sum.splits prod.splits)
  have za: "allocations l = 0" and zb: "allocations r = 0" using "7.prems"(1) by simp_all
  have a': "n1 = n \<and> generateProgramCode gc l ?nd m = Inr (c1, m)"
    by (rule "7.IH"(1)[OF refl za a])
  have b': "n' = n1 \<and> generateProgramCode gc r ?nd m = Inr (c2, m)"
    by (rule "7.IH"(2)[OF refl a refl zb b])
  show ?case using a' b' out by (simp add: Let_def)
next
  case (12 gc c cs d n)
  from "12.prems"(2) obtain c1 n1 c2 where
    a: "generateProgramCode gc c d n = Inr (c1, n1)"
    and b: "generateCommands gc cs d n1 = Inr (c2, n')"
    and out: "out = c1 @ (if context d = LOOP_BODY \<and> cs \<noteq> []
                     then PTFI ''if(!success) break;\<newline>\<newline>'' (indent d) else []) @ c2"
    by (auto simp: Let_def split: sum.splits prod.splits)
  have za: "allocations c = 0" and zb: "allocations_commands cs = 0"
    using "12.prems"(1) by simp_all
  have a': "n1 = n \<and> generateProgramCode gc c d m = Inr (c1, m)"
    by (rule "12.IH"(1)[OF refl za a])
  have b': "n' = n1 \<and> generateCommands gc cs d m = Inr (c2, m)"
    by (rule "12.IH"(2)[OF refl a refl zb b])
  show ?case using a' b' out by (simp add: Let_def)
next
  case (13 gc ty co t e d n)
  let ?cd = "fst (condition_data ty co t e d n)"
  let ?n0 = "snd (condition_data ty co t e d n)"
  let ?nd = "d\<lparr>indent := indent d + 3\<rparr>"
  from "13.prems"(2) obtain c1 n1 c2 n2 c3 where
    a: "generateProgramCode gc co ?cd ?n0 = Inr (c1, n1)"
    and b: "generateProgramCode gc t ?nd n1 = Inr (c2, n2)"
    and c: "generateProgramCode gc e ?nd n2 = Inr (c3, n')"
    and out: "out = branch_code gc d ?cd c1 c2 c3"
    by (auto simp: Let_def split: sum.splits prod.splits)
  have na: "\<not> branch_allocates ty co t e" and za: "allocations co = 0"
    and zb: "allocations t = 0" and zc: "allocations e = 0"
    using "13.prems"(1) by (simp_all split: if_splits)
  have n0: "?n0 = n" and cdm: "snd (condition_data ty co t e d m) = m"
    using na by (simp_all add: condition_data_allocation(1))
  have a': "n1 = ?n0 \<and> generateProgramCode gc co ?cd m = Inr (c1, m)"
    by (rule "13.IH"(1)[OF refl refl refl za a])
  have b': "n2 = n1 \<and> generateProgramCode gc t ?nd m = Inr (c2, m)"
    by (rule "13.IH"(2)[OF refl refl refl a refl zb b])
  have c': "n' = n2 \<and> generateProgramCode gc e ?nd m = Inr (c3, m)"
    by (rule "13.IH"(3)[OF refl refl refl a refl b refl zc c])
  have fst_eq: "fst (condition_data ty co t e d m) = ?cd"
    by (rule condition_data_allocation(3)[OF na])
  show ?case using a' b' c' n0 out cdm fst_eq by (simp add: Let_def)
next
  case (14 gc b d n)
  let ?ld = "fst (loop_data b d n)"
  let ?n0 = "snd (loop_data b d n)"
  from "14.prems"(2) obtain c1 where
    nf: "\<not> neverFails b" and a: "generateProgramCode gc b ?ld ?n0 = Inr (c1, n')"
    and out: "out = loop_code gc d ?ld c1"
    by (auto simp: Let_def split: sum.splits prod.splits if_splits)
  have sr: "singleRule b" and za: "allocations b = 0"
    using "14.prems"(1) by (simp_all split: if_splits)
  have n0: "?n0 = n" and ldm: "snd (loop_data b d m) = m"
    using sr by (simp_all add: loop_data_allocation(1))
  have a': "n' = ?n0 \<and> generateProgramCode gc b ?ld m = Inr (c1, m)"
    by (rule "14.IH"[OF nf refl refl za a])
  have fst_eq: "fst (loop_data b d m) = ?ld"
    by (rule loop_data_allocation(3)[OF sr])
  show ?case using a' n0 out ldm fst_eq nf by (simp add: Let_def)
qed simp_all

subsection \<open>The analyses\<close>

lemma neverFails_rule_set_all:
  "neverFails_rule_set rule_set = list_all (\<lambda>r. empty_lhs (rule r)) rule_set"
  by (induction rule_set) simp_all

lemma neverFails_agrees:
  "neverFails command = neverFails_spec command"
  "neverFails_commands commands = list_all neverFails_spec commands"
  by (induction command and commands rule: neverFails_neverFails_commands.induct)
     (simp_all add: neverFails_rule_set_all)

text \<open>
  C7: \<open>neverFails\<close> agrees with the case table of the specification on every command:
  a rule call iff its rule has an empty left-hand side, a rule set iff every rule of it
  has one, a loop always, skip and break true, fail false, a sequence iff all its
  elements never fail, if and try iff both then and else never fail, or iff both
  branches never fail.
\<close>

theorem neverFails_case_table:
  "neverFails command = neverFails_spec command"
  by (rule neverFails_agrees)

subsection \<open>Failure code and rule calls\<close>

text \<open>The failure code, by the context it is emitted in.\<close>

lemma failure_code_by_context:
  "generateFailureCode graph_copying rname data =
     (case context data of
        MAIN_BODY \<Rightarrow>
          PTFI (case rname of
                  Some rn \<Rightarrow> ''fprintf(output_file, '' @ dq @ ''No output graph: rule '' @ rn
                             @ '' not applicable.'' @ bs @ ''n'' @ dq @ '');\<newline>''
                | None \<Rightarrow> ''fprintf(output_file, '' @ dq
                          @ ''No output graph: Fail statement invoked'' @ bs @ ''n'' @ dq
                          @ '');\<newline>'') (indent data)
          @ PTFI (''printf('' @ dq @ ''Output information saved to file gp2.output'' @ bs @ ''n''
                  @ dq @ '');\<newline>'') (indent data)
          @ PTFI ''garbageCollect();\<newline>'' (indent data)
          @ PTFI ''fclose(output_file);\<newline>'' (indent data)
          @ PTFI ''return 0;\<newline>'' (indent data)
      | IF_BODY \<Rightarrow>
          PTFI ''success = false;\<newline>'' (indent data) @ PTFI ''break;\<newline>'' (indent data)
      | TRY_BODY \<Rightarrow>
          PTFI ''success = false;\<newline>'' (indent data) @ PTFI ''break;\<newline>'' (indent data)
      | LOOP_BODY \<Rightarrow>
          PTFI ''success = false;\<newline>'' (indent data)
          @ (if restore_point data \<ge> 0
             then PTFI (if graph_copying
                        then ''host = popGraphs('' @ show_int (restore_point data) @ '');\<newline>''
                        else ''undoChanges(host, restore_point'' @ show_int (restore_point data)
                             @ '');\<newline>'') (indent data)
             else []))"
  by (cases "context data") (simp_all add: generateFailureCode_def split: option.splits)

text \<open>
  C5, evaluated on \<open>Main = try ({r1, r2}; r3)\<close>: the failure code of the last rule of
  the rule set, \<open>success = false; break;\<close>, is placed inside the do-once block of the
  rule set call, so its \<open>break\<close> leaves that block and not the do-once block of the
  condition. The rule call \<open>r3\<close> that follows in the condition is still matched and,
  when it matches, is applied and sets the success flag back to true. The header of the
  source states that the failure code within a branch condition breaks out of the loop
  the branch condition is generated in.
\<close>

theorem rule_set_failure_in_condition:
  "generateProgramCode False try_rule_set_then_rule initialData 0 =
     Inr ([''   /* Try Statement */\<newline>'',
           ''   /* Condition */\<newline>'',
           ''   int restore_point0 = graph_change_stack == NULL ? 0 : topOfGraphChangeStack();\<newline>'',
           ''   do\<newline>'',
           ''   {\<newline>'',
           ''      /* Rule Set Call */\<newline>'',
           ''      do\<newline>'',
           ''      {\<newline>'',
           ''         if(matchr1(M_r1))\<newline>'',
           ''         {\<newline>'',
           ''            applyr1(M_r1, true);\<newline>'',
           ''            success = true;\<newline>'',
           ''            break;\<newline>'',
           ''         }\<newline>'',
           ''         if(matchr2(M_r2))\<newline>'',
           ''         {\<newline>'',
           ''            applyr2(M_r2, true);\<newline>'',
           ''            success = true;\<newline>'',
           ''         }\<newline>'',
           ''         else\<newline>'',
           ''         {\<newline>'',
           ''            success = false;\<newline>'',
           ''            break;\<newline>'',
           ''         }\<newline>'',
           ''      } while(false);\<newline>'',
           ''      /* Rule Call */\<newline>'',
           ''      if(matchr3(M_r3))\<newline>'',
           ''      {\<newline>'',
           ''         applyr3(M_r3, true);\<newline>'',
           ''         success = true;\<newline>'',
           ''      }\<newline>'',
           ''      else\<newline>'',
           ''      {\<newline>'',
           ''         success = false;\<newline>'',
           ''         break;\<newline>'',
           ''      }\<newline>'',
           ''   } while(false);\<newline>\<newline>'',
           ''   /* Then Branch */\<newline>'',
           ''   if(success)\<newline>'',
           ''   {\<newline>'',
           ''      discardChanges(restore_point0);\<newline>'',
           ''      /* Skip Statement */\<newline>'',
           ''      success = true;\<newline>'',
           ''   }\<newline>'',
           ''   /* Else Branch */\<newline>'',
           ''   else\<newline>'',
           ''   {\<newline>'',
           ''      undoChanges(host, restore_point0);\<newline>'',
           ''      success = true;\<newline>'',
           ''      /* Skip Statement */\<newline>'',
           ''      success = true;\<newline>'',
           ''   }\<newline>''], 1)"
  by code_simp

text \<open>
  C6: for a rule call that is not a predicate and has a non-empty left-hand side, the
  success branch of the emitted match applies the rule iff the context is not an if body
  or a restore point is active; otherwise it only re-initialises the morphism of the
  rule, so the matched rule does not change the host graph.
\<close>

theorem rule_call_application:
  "generateRuleCall graph_copying rname False False last_rule data =
     PTFI (''if(match'' @ rname @ ''(M_'' @ rname @ ''))\<newline>'') (indent data)
     @ PTFI ''{\<newline>'' (indent data)
     @ (if context data \<noteq> IF_BODY \<or> restore_point data \<ge> 0
        then PTFI (''apply'' @ rname @ ''(M_'' @ rname @ '', ''
                   @ (if record_changes data \<and> \<not> graph_copying then ''true'' else ''false'')
                   @ '');\<newline>'') (indent data + 3)
        else PTFI (''initialiseMorphism(M_'' @ rname @ '', host);\<newline>'') (indent data + 3))
     @ PTFI ''success = true;\<newline>'' (indent data + 3)
     @ (if last_rule then [] else PTFI ''break;\<newline>'' (indent data + 3))
     @ PTFI ''}\<newline>'' (indent data)
     @ (if last_rule
        then PTFI ''else\<newline>'' (indent data)
             @ PTFI ''{\<newline>'' (indent data)
             @ generateFailureCode graph_copying (Some rname) (data\<lparr>indent := indent data + 3\<rparr>)
             @ PTFI ''}\<newline>'' (indent data)
        else [])"
  by (simp add: generateRuleCall_def Let_def)

text \<open>
  The rule call \<open>r1\<close> in an if body, once with the restore point 0 active and once with
  no restore point.
\<close>

theorem rule_call_application_witness:
  "generateRuleCall False ''r1'' False False True
     \<lparr>context = IF_BODY, loop_depth = 0, record_changes = True, restore_point = 0, indent = 6\<rparr>
   = [''      if(matchr1(M_r1))\<newline>'',
      ''      {\<newline>'',
      ''         applyr1(M_r1, true);\<newline>'',
      ''         success = true;\<newline>'',
      ''      }\<newline>'',
      ''      else\<newline>'',
      ''      {\<newline>'',
      ''         success = false;\<newline>'',
      ''         break;\<newline>'',
      ''      }\<newline>'']
   \<and> generateRuleCall False ''r1'' False False True
     \<lparr>context = IF_BODY, loop_depth = 0, record_changes = False, restore_point = - 1, indent = 6\<rparr>
   = [''      if(matchr1(M_r1))\<newline>'',
      ''      {\<newline>'',
      ''         initialiseMorphism(M_r1, host);\<newline>'',
      ''         success = true;\<newline>'',
      ''      }\<newline>'',
      ''      else\<newline>'',
      ''      {\<newline>'',
      ''         success = false;\<newline>'',
      ''         break;\<newline>'',
      ''      }\<newline>'']"
  using rule_call_application[of False "''r1''" True
          "\<lparr>context = IF_BODY, loop_depth = 0, record_changes = True, restore_point = 0, indent = 6\<rparr>"]
        rule_call_application[of False "''r1''" True
          "\<lparr>context = IF_BODY, loop_depth = 0, record_changes = False, restore_point = - 1, indent = 6\<rparr>"]
  by (simp add: generateFailureCode_def PTFI_def numeral_eq_Suc)

subsection \<open>Command sequences\<close>

lemma generateCommands_sequence_code:
  "generateCommands graph_copying commands data n = Inr (out, n') \<Longrightarrow>
   \<exists>codes. list_all2 (\<lambda>command code. \<exists>m m'.
                 generateProgramCode graph_copying command data m = Inr (code, m')) commands codes
          \<and> out = sequence_code (context data = LOOP_BODY) (indent data) codes"
proof (induction commands arbitrary: n out)
  case Nil
  then show ?case by simp
next
  case (Cons command commands)
  from Cons.prems obtain code n1 rest where
    a: "generateProgramCode graph_copying command data n = Inr (code, n1)"
    and b: "generateCommands graph_copying commands data n1 = Inr (rest, n')"
    and out: "out = code @ (if context data = LOOP_BODY \<and> commands \<noteq> []
                            then PTFI ''if(!success) break;\<newline>\<newline>'' (indent data) else [])
                    @ rest"
    by (auto simp: Let_def split: sum.splits prod.splits)
  from Cons.IH[OF b] obtain codes where
    c: "list_all2 (\<lambda>command code. \<exists>m m'.
          generateProgramCode graph_copying command data m = Inr (code, m')) commands codes"
    and r: "rest = sequence_code (context data = LOOP_BODY) (indent data) codes"
    by blast
  have "list_all2 (\<lambda>command code. \<exists>m m'.
          generateProgramCode graph_copying command data m = Inr (code, m'))
          (command # commands) (code # codes)"
    using a c by auto
  moreover have "out = sequence_code (context data = LOOP_BODY) (indent data) (code # codes)"
  proof (cases codes)
    case Nil
    then have "commands = []" using c by simp
    then show ?thesis using out r Nil b by simp
  next
    case (Cons code' codes')
    then have "commands \<noteq> []" using c by auto
    then show ?thesis using out r Cons by (simp add: PTFI_def)
  qed
  ultimately show ?case by blast
qed

text \<open>
  C10: the code of a command sequence is the code of its elements in order; in a loop
  body the check \<open>if(!success) break;\<close> follows every element except the last, and in
  every other context nothing is placed between the elements.
\<close>

theorem sequence_checks_in_loop_body:
  assumes "generateProgramCode graph_copying (COMMAND_SEQUENCE commands) data n = Inr (out, n')"
  shows "\<exists>codes. list_all2 (\<lambda>command code. \<exists>m m'.
                   generateProgramCode graph_copying command data m = Inr (code, m')) commands codes
              \<and> out = sequence_code (context data = LOOP_BODY) (indent data) codes"
  using assms by (simp add: generateCommands_sequence_code)

text \<open>The sequence \<open>r1; r2\<close> in a loop body.\<close>

theorem sequence_checks_in_loop_body_witness:
  "\<exists>out n'. generateProgramCode False (COMMAND_SEQUENCE [RULE_CALL r1, RULE_CALL r2])
                (initialData\<lparr>context := LOOP_BODY\<rparr>) 0 = Inr (out, n')
     \<and> (\<exists>codes. list_all2 (\<lambda>command code. \<exists>m m'.
                     generateProgramCode False command (initialData\<lparr>context := LOOP_BODY\<rparr>) m
                       = Inr (code, m')) [RULE_CALL r1, RULE_CALL r2] codes
                \<and> out = sequence_code True 3 codes)"
proof -
  obtain out n' where h: "generateProgramCode False (COMMAND_SEQUENCE [RULE_CALL r1, RULE_CALL r2])
                (initialData\<lparr>context := LOOP_BODY\<rparr>) 0 = Inr (out, n')"
    by (simp add: Let_def)
  from sequence_checks_in_loop_body[OF h] show ?thesis
    using h by (simp add: initialData_def)
qed

subsection \<open>Loops\<close>



subsection \<open>Branch statements\<close>

text \<open>
  C1, evaluated under the graph copying strategy on \<open>Main = try (r1; r2)\<close>: a restore
  point is allocated and captured by \<open>copyGraph(host)\<close>, and the else branch pops the
  graph copy; the then branch opens with \<open>discardChanges(restore_point0)\<close>, the call of
  the change recording strategy, on a variable that the emitted program does not
  declare, and the graph copy is neither popped nor freed there. Where it discards a
  restore point at the end of the body of an outermost loop and at a break statement
  that is not of an inner loop, the generator emits \<open>popGraphs\<close> and \<open>freeGraph\<close>
  under this strategy.
\<close>

theorem try_then_branch_under_graph_copying:
  "generateProgramCode True try_r1_r2 initialData 0 =
     Inr ([''   /* Try Statement */\<newline>'',
           ''   /* Condition */\<newline>'',
           ''   copyGraph(host);\<newline>'',
           ''   do\<newline>'',
           ''   {\<newline>'',
           ''      /* Rule Call */\<newline>'',
           ''      if(matchr1(M_r1))\<newline>'',
           ''      {\<newline>'',
           ''         applyr1(M_r1, false);\<newline>'',
           ''         success = true;\<newline>'',
           ''      }\<newline>'',
           ''      else\<newline>'',
           ''      {\<newline>'',
           ''         success = false;\<newline>'',
           ''         break;\<newline>'',
           ''      }\<newline>'',
           ''      /* Rule Call */\<newline>'',
           ''      if(matchr2(M_r2))\<newline>'',
           ''      {\<newline>'',
           ''         applyr2(M_r2, false);\<newline>'',
           ''         success = true;\<newline>'',
           ''      }\<newline>'',
           ''      else\<newline>'',
           ''      {\<newline>'',
           ''         success = false;\<newline>'',
           ''         break;\<newline>'',
           ''      }\<newline>'',
           ''   } while(false);\<newline>\<newline>'',
           ''   /* Then Branch */\<newline>'',
           ''   if(success)\<newline>'',
           ''   {\<newline>'',
           ''      discardChanges(restore_point0);\<newline>'',
           ''      /* Skip Statement */\<newline>'',
           ''      success = true;\<newline>'',
           ''   }\<newline>'',
           ''   /* Else Branch */\<newline>'',
           ''   else\<newline>'',
           ''   {\<newline>'',
           ''      host = popGraphs(0);\<newline>'',
           ''      success = true;\<newline>'',
           ''      /* Skip Statement */\<newline>'',
           ''      success = true;\<newline>'',
           ''   }\<newline>''], 1)"
  by code_simp

text \<open>
  The same program under the change recording strategy: the restore point is a declared
  variable, the then branch discards it and the else branch undoes the changes to it.
\<close>

lemma try_branches_under_change_recording:
  "generateProgramCode False try_r1_r2 initialData 0 =
     Inr ([''   /* Try Statement */\<newline>'',
           ''   /* Condition */\<newline>'',
           ''   int restore_point0 = graph_change_stack == NULL ? 0 : topOfGraphChangeStack();\<newline>'',
           ''   do\<newline>'',
           ''   {\<newline>'',
           ''      /* Rule Call */\<newline>'',
           ''      if(matchr1(M_r1))\<newline>'',
           ''      {\<newline>'',
           ''         applyr1(M_r1, true);\<newline>'',
           ''         success = true;\<newline>'',
           ''      }\<newline>'',
           ''      else\<newline>'',
           ''      {\<newline>'',
           ''         success = false;\<newline>'',
           ''         break;\<newline>'',
           ''      }\<newline>'',
           ''      /* Rule Call */\<newline>'',
           ''      if(matchr2(M_r2))\<newline>'',
           ''      {\<newline>'',
           ''         applyr2(M_r2, true);\<newline>'',
           ''         success = true;\<newline>'',
           ''      }\<newline>'',
           ''      else\<newline>'',
           ''      {\<newline>'',
           ''         success = false;\<newline>'',
           ''         break;\<newline>'',
           ''      }\<newline>'',
           ''   } while(false);\<newline>\<newline>'',
           ''   /* Then Branch */\<newline>'',
           ''   if(success)\<newline>'',
           ''   {\<newline>'',
           ''      discardChanges(restore_point0);\<newline>'',
           ''      /* Skip Statement */\<newline>'',
           ''      success = true;\<newline>'',
           ''   }\<newline>'',
           ''   /* Else Branch */\<newline>'',
           ''   else\<newline>'',
           ''   {\<newline>'',
           ''      undoChanges(host, restore_point0);\<newline>'',
           ''      success = true;\<newline>'',
           ''      /* Skip Statement */\<newline>'',
           ''      success = true;\<newline>'',
           ''   }\<newline>''], 1)"
  by code_simp

subsection \<open>The emitted main function\<close>

text \<open>
  C9: the main function of the emitted program returns 0 at its end, and also right
  after printing an error message to the standard error stream when the host file
  argument is missing and when the host graph cannot be built.
\<close>

theorem emitted_main_returns_zero:
  assumes "generateRuntimeMain graph_copying list_hashing fopen_ok declarations n = Inr (out, n')"
  shows "\<exists>before program_code.
     out = before
       @ [''int main(int argc, char **argv)\<newline>'',
          ''{\<newline>'',
          ''   srand(time(NULL));\<newline>'',
          ''   openLogFile('' @ dq @ ''gp2.log'' @ dq @ '');\<newline>\<newline>'',
          ''   if(argc != 2)\<newline>'',
          ''   {\<newline>'',
          ''      fprintf(stderr, '' @ dq @ ''Error: missing <host-file> argument.'' @ bs @ ''n''
             @ dq @ '');\<newline>'',
          ''      return 0;\<newline>'',
          ''   }\<newline>\<newline>'',
          ''   host = buildHostGraph(argv[1]);\<newline>'',
          ''   if(host == NULL)\<newline>'',
          ''   {\<newline>'',
          ''      fprintf(stderr, '' @ dq @ ''Error parsing host graph file.'' @ bs @ ''n'' @ dq
             @ '');\<newline>'',
          ''      return 0;\<newline>'',
          ''   }\<newline>'',
          ''   FILE *output_file = fopen('' @ dq @ ''gp2.output'' @ dq @ '', '' @ dq @ ''w'' @ dq
             @ '');\<newline>'',
          ''   if(output_file == NULL)\<newline>'',
          ''   {\<newline>'',
          ''      perror('' @ dq @ ''gp2.output'' @ dq @ '');\<newline>'',
          ''      exit(1);\<newline>'',
          ''   }\<newline>'']
       @ generateMorphismCode declarations Make True
       @ program_code
       @ [''   printGraph(host, output_file);\<newline>'',
          ''   printf('' @ dq @ ''Output graph saved to file gp2.output'' @ bs @ ''n'' @ dq
             @ '');\<newline>'',
          ''   garbageCollect();\<newline>'',
          ''   fclose(output_file);\<newline>'',
          ''   return 0;\<newline>'',
          ''}\<newline>\<newline>'']"
proof -
  from assms obtain program_code where
    out: "out = PTF ''#include <time.h>\<newline>''
                    @ PTF (''#include '' @ dq @ ''common.h'' @ dq @ ''\<newline>'')
                    @ PTF (''#include '' @ dq @ ''debug.h'' @ dq @ ''\<newline>'')
                    @ PTF (''#include '' @ dq @ ''graph.h'' @ dq @ ''\<newline>'')
                    @ PTF (''#include '' @ dq @ ''graphStacks.h'' @ dq @ ''\<newline>'')
                    @ PTF (''#include '' @ dq @ ''parser.h'' @ dq @ ''\<newline>'')
                    @ PTF (''#include '' @ dq @ ''morphism.h'' @ dq @ ''\<newline>\<newline>'')
                    @ generateMorphismCode declarations Declare True
                    @ generateMorphismCode declarations Free True
                    @ garbageCollect_code graph_copying list_hashing
                    @ PTF ''Graph *host = NULL;\<newline>''
                    @ PTF ''int *node_map = NULL;\<newline>\<newline>''
                    @ buildHostGraph_code
                    @ PTF ''bool success = true;\<newline>\<newline>''
                    @ main_entry_code
                    @ generateMorphismCode declarations Make True
                    @ program_code
                    @ main_exit_code"
    by (auto simp: generateRuntimeMain_def split: if_splits sum.splits prod.splits)
  have three: "replicate (nat 3) CHR '' '' = ''   ''" and six: "replicate (nat 6) CHR '' '' = ''      ''"
    by (simp_all add: numeral_eq_Suc)
  have entry: "main_entry_code =
        [''int main(int argc, char **argv)\<newline>'',
          ''{\<newline>'',
          ''   srand(time(NULL));\<newline>'',
          ''   openLogFile('' @ dq @ ''gp2.log'' @ dq @ '');\<newline>\<newline>'',
          ''   if(argc != 2)\<newline>'',
          ''   {\<newline>'',
          ''      fprintf(stderr, '' @ dq @ ''Error: missing <host-file> argument.'' @ bs @ ''n''
             @ dq @ '');\<newline>'',
          ''      return 0;\<newline>'',
          ''   }\<newline>\<newline>'',
          ''   host = buildHostGraph(argv[1]);\<newline>'',
          ''   if(host == NULL)\<newline>'',
          ''   {\<newline>'',
          ''      fprintf(stderr, '' @ dq @ ''Error parsing host graph file.'' @ bs @ ''n'' @ dq
             @ '');\<newline>'',
          ''      return 0;\<newline>'',
          ''   }\<newline>'',
          ''   FILE *output_file = fopen('' @ dq @ ''gp2.output'' @ dq @ '', '' @ dq @ ''w'' @ dq
             @ '');\<newline>'',
          ''   if(output_file == NULL)\<newline>'',
          ''   {\<newline>'',
          ''      perror('' @ dq @ ''gp2.output'' @ dq @ '');\<newline>'',
          ''      exit(1);\<newline>'',
          ''   }\<newline>'']"
    unfolding main_entry_code_def PTFI_def PTF_def three six by simp
  have exit: "main_exit_code =
        [''   printGraph(host, output_file);\<newline>'',
          ''   printf('' @ dq @ ''Output graph saved to file gp2.output'' @ bs @ ''n'' @ dq
             @ '');\<newline>'',
          ''   garbageCollect();\<newline>'',
          ''   fclose(output_file);\<newline>'',
          ''   return 0;\<newline>'',
          ''}\<newline>\<newline>'']"
    unfolding main_exit_code_def PTF_def by simp
  show ?thesis
    unfolding out entry exit
    by (metis append.assoc)
qed

text \<open>The program \<open>Main = r1\<close>.\<close>

theorem emitted_main_returns_zero_witness:
  "\<exists>out n'. generateRuntimeMain False False True (program (RULE_CALL r1)) 0 = Inr (out, n')
     \<and> ''      return 0;\<newline>'' \<in> set out \<and> last out = ''}\<newline>\<newline>''"
proof -
  obtain out n' where
    h: "generateRuntimeMain False False True (program (RULE_CALL r1)) 0 = Inr (out, n')"
    by (simp add: generateRuntimeMain_def program_def)
  from emitted_main_returns_zero[OF h] obtain before program_code where
    "out = before
       @ [''int main(int argc, char **argv)\<newline>'',
          ''{\<newline>'',
          ''   srand(time(NULL));\<newline>'',
          ''   openLogFile('' @ dq @ ''gp2.log'' @ dq @ '');\<newline>\<newline>'',
          ''   if(argc != 2)\<newline>'',
          ''   {\<newline>'',
          ''      fprintf(stderr, '' @ dq @ ''Error: missing <host-file> argument.'' @ bs @ ''n''
             @ dq @ '');\<newline>'',
          ''      return 0;\<newline>'',
          ''   }\<newline>\<newline>'',
          ''   host = buildHostGraph(argv[1]);\<newline>'',
          ''   if(host == NULL)\<newline>'',
          ''   {\<newline>'',
          ''      fprintf(stderr, '' @ dq @ ''Error parsing host graph file.'' @ bs @ ''n'' @ dq
             @ '');\<newline>'',
          ''      return 0;\<newline>'',
          ''   }\<newline>'',
          ''   FILE *output_file = fopen('' @ dq @ ''gp2.output'' @ dq @ '', '' @ dq @ ''w'' @ dq
             @ '');\<newline>'',
          ''   if(output_file == NULL)\<newline>'',
          ''   {\<newline>'',
          ''      perror('' @ dq @ ''gp2.output'' @ dq @ '');\<newline>'',
          ''      exit(1);\<newline>'',
          ''   }\<newline>'']
       @ generateMorphismCode (program (RULE_CALL r1)) Make True
       @ program_code
       @ [''   printGraph(host, output_file);\<newline>'',
          ''   printf('' @ dq @ ''Output graph saved to file gp2.output'' @ bs @ ''n'' @ dq
             @ '');\<newline>'',
          ''   garbageCollect();\<newline>'',
          ''   fclose(output_file);\<newline>'',
          ''   return 0;\<newline>'',
          ''}\<newline>\<newline>'']"
    by blast
  then have "''      return 0;\<newline>'' \<in> set out \<and> last out = ''}\<newline>\<newline>''"
    by simp
  then show ?thesis using h by blast
qed

subsection \<open>Restore points and the calls of the generator\<close>

lemma allocations_commands_append:
  "allocations_commands (xs @ ys) = allocations_commands xs + allocations_commands ys"
  by (induction xs) simp_all

lemma subcall_innermost:
  "subcall gc a b \<Longrightarrow> innermost (fst (snd a)) (snd (snd (snd a))) \<Longrightarrow>
     innermost (fst (snd b)) (snd (snd (snd b)))"
proof (induction rule: subcall.induct)
  case (branch_condition ty condition then_command else_command data n cd n1 live)
  then show ?case by (simp add: innermost_def enter_frame_def)
next
  case (loop_body loop_body data n ld n1 live)
  then show ?case by (simp add: innermost_def enter_frame_def)
qed (simp_all add: innermost_def)

lemma subcall_within_budget:
  "subcall gc a b \<Longrightarrow> bound \<le> INT_MAX \<Longrightarrow> within_budget n0 bound a \<Longrightarrow>
     within_budget n0 bound b"
proof (induction rule: subcall.induct)
  case (sequence_element before data n code n1 command rest live)
  from sequence_element.prems have
    b: "n + int (allocations_commands before) + int (allocations command)
          + int (allocations_commands rest) \<le> bound"
    and f: "n0 \<le> n" "distinct live" "\<forall>f\<in>set live. n0 \<le> f \<and> f < n"
    by (simp_all add: within_budget_def allocations_commands_append)
  have "n + int (allocations_commands before) \<le> INT_MAX"
    using b sequence_element.prems(1) by simp
  from counter_exact(2)[OF this sequence_element.hyps]
  have "n1 = n + int (allocations_commands before)" .
  then show ?case using b f by (auto simp: within_budget_def)
next
  case (procedure_body commands data n live)
  then show ?case by (simp add: within_budget_def)
next
  case (branch_condition ty condition then_command else_command data n cd n1 live)
  let ?k = "(if branch_allocates ty condition then_command else_command then 1 else 0) :: nat"
  from branch_condition.prems have
    b: "n + int ?k + int (allocations condition) + int (allocations then_command)
          + int (allocations else_command) \<le> bound"
    and f: "n0 \<le> n" "distinct live" "\<forall>f\<in>set live. n0 \<le> f \<and> f < n"
    by (simp_all add: within_budget_def)
  have cd: "restore_point cd = (if branch_allocates ty condition then_command else_command
                                then n else - 1)"
    and n1: "n1 = (if branch_allocates ty condition then_command else_command
                   then increment_restore_point_count n else n)"
    using branch_condition.hyps
      condition_data_allocation(1,2)[of ty condition then_command else_command data n]
    by simp_all
  have n1': "n1 = n + int ?k"
  proof (cases "branch_allocates ty condition then_command else_command")
    case True
    then have "n < INT_MAX" using b branch_condition.prems(1) by simp
    then show ?thesis using True n1 by (simp add: increment_below_INT_MAX)
  next
    case False
    then show ?thesis using n1 by simp
  qed
  show ?case using b f cd n1'
    by (auto simp: within_budget_def enter_frame_def split: if_splits)
next
  case (branch_then ty condition then_command else_command data n cd n1 condition_code n2 live)
  let ?k = "(if branch_allocates ty condition then_command else_command then 1 else 0) :: nat"
  from branch_then.prems have
    b: "n + int ?k + int (allocations condition) + int (allocations then_command)
          + int (allocations else_command) \<le> bound"
    and f: "n0 \<le> n" "distinct live" "\<forall>f\<in>set live. n0 \<le> f \<and> f < n"
    by (simp_all add: within_budget_def)
  have n1: "n1 = (if branch_allocates ty condition then_command else_command
                   then increment_restore_point_count n else n)"
    using branch_then.hyps(1)
      condition_data_allocation(1)[of ty condition then_command else_command data n]
    by simp
  have n1': "n1 = n + int ?k"
  proof (cases "branch_allocates ty condition then_command else_command")
    case True
    then have "n < INT_MAX" using b branch_then.prems(1) by simp
    then show ?thesis using True n1 by (simp add: increment_below_INT_MAX)
  next
    case False
    then show ?thesis using n1 by simp
  qed
  have "n1 + int (allocations condition) \<le> INT_MAX" using b n1' branch_then.prems(1) by simp
  from counter_exact(1)[OF this branch_then.hyps(2)]
  have "n2 = n1 + int (allocations condition)" .
  then show ?case using b f n1' by (auto simp: within_budget_def)
next
  case (branch_else ty condition then_command else_command data n cd n1 condition_code n2
        then_code n3 live)
  let ?k = "(if branch_allocates ty condition then_command else_command then 1 else 0) :: nat"
  from branch_else.prems have
    b: "n + int ?k + int (allocations condition) + int (allocations then_command)
          + int (allocations else_command) \<le> bound"
    and f: "n0 \<le> n" "distinct live" "\<forall>f\<in>set live. n0 \<le> f \<and> f < n"
    by (simp_all add: within_budget_def)
  have n1: "n1 = (if branch_allocates ty condition then_command else_command
                   then increment_restore_point_count n else n)"
    using branch_else.hyps(1)
      condition_data_allocation(1)[of ty condition then_command else_command data n]
    by simp
  have n1': "n1 = n + int ?k"
  proof (cases "branch_allocates ty condition then_command else_command")
    case True
    then have "n < INT_MAX" using b branch_else.prems(1) by simp
    then show ?thesis using True n1 by (simp add: increment_below_INT_MAX)
  next
    case False
    then show ?thesis using n1 by simp
  qed
  have "n1 + int (allocations condition) \<le> INT_MAX" using b n1' branch_else.prems(1) by simp
  from counter_exact(1)[OF this branch_else.hyps(2)]
  have n2: "n2 = n1 + int (allocations condition)" .
  have "n2 + int (allocations then_command) \<le> INT_MAX"
    using b n1' n2 branch_else.prems(1) by simp
  from counter_exact(1)[OF this branch_else.hyps(3)]
  have "n3 = n2 + int (allocations then_command)" .
  then show ?case using b f n1' n2 by (auto simp: within_budget_def)
next
  case (loop_body loop_body data n ld n1 live)
  let ?k = "(if singleRule loop_body then 0 else 1) :: nat"
  from loop_body.prems have
    b: "n + int ?k + int (allocations loop_body) \<le> bound"
    and f: "n0 \<le> n" "distinct live" "\<forall>f\<in>set live. n0 \<le> f \<and> f < n"
    by (simp_all add: within_budget_def)
  have ld: "restore_point ld = (if singleRule loop_body then - 1 else n)"
    and n1: "n1 = (if singleRule loop_body then n else increment_restore_point_count n)"
    using loop_body.hyps(2) loop_data_allocation(1,2)[of loop_body data n] by simp_all
  have n1': "n1 = n + int ?k"
  proof (cases "singleRule loop_body")
    case True
    then show ?thesis using n1 by simp
  next
    case False
    then have "n < INT_MAX" using b loop_body.prems(1) by simp
    then show ?thesis using False n1 by (simp add: increment_below_INT_MAX)
  qed
  show ?case using b f ld n1'
    by (auto simp: within_budget_def enter_frame_def split: if_splits)
next
  case (or_left left_command right_command data n live)
  then show ?case by (simp add: within_budget_def)
next
  case (or_right left_command data n left_code n1 right_command live)
  from or_right.prems have
    b: "n + int (allocations left_command) + int (allocations right_command) \<le> bound"
    and f: "n0 \<le> n" "distinct live" "\<forall>f\<in>set live. n0 \<le> f \<and> f < n"
    by (simp_all add: within_budget_def)
  have "n + int (allocations left_command) \<le> INT_MAX" using b or_right.prems(1) by simp
  from counter_exact(1)[OF this or_right.hyps]
  have "n1 = n + int (allocations left_command)" .
  then show ?case using b f by (auto simp: within_budget_def)
qed

lemma reach_invariants:
  assumes "(subcall gc)\<^sup>*\<^sup>* a b"
  shows "innermost (fst (snd a)) (snd (snd (snd a))) \<Longrightarrow> innermost (fst (snd b)) (snd (snd (snd b)))"
    and "bound \<le> INT_MAX \<Longrightarrow> within_budget n0 bound a \<Longrightarrow> within_budget n0 bound b"
  using assms
proof (induction rule: rtranclp_induct)
  case base
  { case 1 then show ?case by simp }
  { case 2 then show ?case by simp }
next
  case (step y z)
  { case 1 then show ?case using step.IH(1) subcall_innermost[OF step.hyps(2)] by simp }
  { case 2 then show ?case using step.IH(2) subcall_within_budget[OF step.hyps(2)] by simp }
qed

text \<open>The calls reached in \<open>(r1; r2!)!\<close> and in \<open>(r1; (r1; r2)!)!\<close>.\<close>

lemma loop_with_inner_loop_reaches:
  "(subcall False)\<^sup>*\<^sup>* (loop_with_inner_loop, initialData, 0, [])
     (RULE_CALL r2,
      \<lparr>context = LOOP_BODY, loop_depth = 2, record_changes = True, restore_point = - 1, indent = 9\<rparr>,
      1, [0])"
proof -
  let ?ld0 = "\<lparr>context = LOOP_BODY, loop_depth = 1, record_changes = True, restore_point = 0,
                indent = 6\<rparr>"
  let ?ld1 = "\<lparr>context = LOOP_BODY, loop_depth = 2, record_changes = True, restore_point = - 1,
                indent = 9\<rparr>"
  let ?body = "COMMAND_SEQUENCE [RULE_CALL r1, ALAP_STATEMENT (RULE_CALL r2)]"
  have s1: "subcall False (loop_with_inner_loop, initialData, 0, []) (?body, ?ld0, 1, [0])"
    using subcall.loop_body[of ?body initialData 0 ?ld0 1 False "[]"]
    by (simp add: loop_with_inner_loop_def loop_data_def initialData_def enter_frame_def r1_def
          increment_restore_point_count_def INT_MAX_def)
  obtain code where g: "generateCommands False [RULE_CALL r1] ?ld0 1 = Inr (code, 1)"
    by simp
  have s2: "subcall False (?body, ?ld0, 1, [0]) (ALAP_STATEMENT (RULE_CALL r2), ?ld0, 1, [0])"
    using subcall.sequence_element[OF g, of "ALAP_STATEMENT (RULE_CALL r2)" "[]" "[0]"] by simp
  have s3: "subcall False (ALAP_STATEMENT (RULE_CALL r2), ?ld0, 1, [0]) (RULE_CALL r2, ?ld1, 1, [0])"
    using subcall.loop_body[of "RULE_CALL r2" ?ld0 1 ?ld1 1 False "[0]"]
    by (simp add: loop_data_def enter_frame_def r2_def)
  from s1 s2 s3 show ?thesis by simp
qed

lemma nested_recording_loops_reaches:
  "(subcall False)\<^sup>*\<^sup>* (nested_recording_loops, initialData, 0, [])
     (COMMAND_SEQUENCE [RULE_CALL r1, RULE_CALL r2],
      \<lparr>context = LOOP_BODY, loop_depth = 2, record_changes = True, restore_point = 1, indent = 9\<rparr>,
      2, [1, 0])"
proof -
  let ?ld0 = "\<lparr>context = LOOP_BODY, loop_depth = 1, record_changes = True, restore_point = 0,
                indent = 6\<rparr>"
  let ?ld1 = "\<lparr>context = LOOP_BODY, loop_depth = 2, record_changes = True, restore_point = 1,
                indent = 9\<rparr>"
  let ?inner = "COMMAND_SEQUENCE [RULE_CALL r1, RULE_CALL r2]"
  let ?body = "COMMAND_SEQUENCE [RULE_CALL r1, ALAP_STATEMENT ?inner]"
  have s1: "subcall False (nested_recording_loops, initialData, 0, []) (?body, ?ld0, 1, [0])"
    using subcall.loop_body[of ?body initialData 0 ?ld0 1 False "[]"]
    by (simp add: nested_recording_loops_def loop_data_def initialData_def enter_frame_def r1_def
          increment_restore_point_count_def INT_MAX_def)
  obtain code where g: "generateCommands False [RULE_CALL r1] ?ld0 1 = Inr (code, 1)"
    by simp
  have s2: "subcall False (?body, ?ld0, 1, [0]) (ALAP_STATEMENT ?inner, ?ld0, 1, [0])"
    using subcall.sequence_element[OF g, of "ALAP_STATEMENT ?inner" "[]" "[0]"] by simp
  have s3: "subcall False (ALAP_STATEMENT ?inner, ?ld0, 1, [0]) (?inner, ?ld1, 2, [1, 0])"
    using subcall.loop_body[of ?inner ?ld0 1 ?ld1 2 False "[0]"]
    by (simp add: loop_data_def enter_frame_def r1_def r2_def
          increment_restore_point_count_def INT_MAX_def)
  from s1 s2 s3 show ?thesis by simp
qed

text \<open>
  C3, as the generator behaves: in every call the generator makes for the main program,
  if the data of the subcommand has \<open>restore_point >= 0\<close> then an enclosing branch
  condition or loop body established a restore frame whose lifetime encloses the
  subcommand, and \<open>restore_point\<close> is the identifier of the innermost such frame. The
  converse is not claimed: a condition or loop body that needs no restore point is
  emitted with \<open>restore_point = -1\<close> also inside a live frame.
\<close>

theorem restore_point_names_innermost_frame:
  assumes "(subcall graph_copying)\<^sup>*\<^sup>* (main_program, initialData, n0, []) (command, data, n, live)"
    and "restore_point data \<ge> 0"
  shows "\<exists>outer. live = restore_point data # outer"
proof -
  have "innermost initialData []" by (simp add: innermost_def initialData_def)
  with reach_invariants(1)[OF assms(1)] have "innermost data live" by simp
  with assms(2) show ?thesis by (cases live) (simp_all add: innermost_def)
qed

text \<open>The body of the inner loop of \<open>(r1; (r1; r2)!)!\<close>, with the restore point 1.\<close>

theorem restore_point_names_innermost_frame_witness:
  "(subcall False)\<^sup>*\<^sup>* (nested_recording_loops, initialData, 0, [])
     (COMMAND_SEQUENCE [RULE_CALL r1, RULE_CALL r2],
      \<lparr>context = LOOP_BODY, loop_depth = 2, record_changes = True, restore_point = 1, indent = 9\<rparr>,
      2, [1, 0])
   \<and> (0::int) \<le> 1
   \<and> (\<exists>outer. [1, 0] = (1::int) # outer)"
  using restore_point_names_innermost_frame[OF nested_recording_loops_reaches]
    nested_recording_loops_reaches by simp

text \<open>
  Invariant 2 as C3 states it fails at the rule call \<open>r2\<close> of \<open>(r1; r2!)!\<close>: the frame 0
  of the outer loop is live there, and the rule call is emitted with
  \<open>restore_point = -1\<close>, because the body of the inner loop is a single rule.
\<close>

theorem frame_invariant_counterexample:
  "(subcall False)\<^sup>*\<^sup>* (loop_with_inner_loop, initialData, 0, [])
     (RULE_CALL r2,
      \<lparr>context = LOOP_BODY, loop_depth = 2, record_changes = True, restore_point = - 1, indent = 9\<rparr>,
      1, [0])
   \<and> \<not> frame_invariant
         \<lparr>context = LOOP_BODY, loop_depth = 2, record_changes = True, restore_point = - 1, indent = 9\<rparr>
         [0]"
  using loop_with_inner_loop_reaches by (simp add: frame_invariant_def)

text \<open>
  C8, as the generator behaves: the counter is post-incremented. As long as the counter
  does not overflow, that is, when the initial value of the counter plus the number of
  restore points the main program allocates is at most 2147483647, the following holds
  in every call the generator makes for the main program. An allocation for the
  condition of the branch or for the body of the loop that the call is on, made at the
  counter \<open>n\<close>, gives the restore point the identifier \<open>n\<close> and leaves the counter at
  \<open>n + 1\<close>; when no restore point is needed the identifier is -1 and the counter is
  unchanged. The live restore points are pairwise distinct and below the counter, so a
  new identifier differs from every live one. And the counter never decreases: it is at
  least its initial value, and generating the command does not lower it. At 2147483647
  the increment wraps around to -2147483648.
\<close>

theorem restore_point_ids_distinct:
  assumes "(subcall graph_copying)\<^sup>*\<^sup>* (main_program, initialData, n0, []) (command, data, n, live)"
    and "n0 + int (allocations main_program) \<le> INT_MAX"
  shows "n0 \<le> n \<and> distinct live \<and> (\<forall>f\<in>set live. f < n)
     \<and> (\<forall>ty c t e. command = COND_BRANCH ty c t e \<longrightarrow>
           restore_point (fst (condition_data ty c t e data n)) = - 1
             \<and> snd (condition_data ty c t e data n) = n
           \<or> restore_point (fst (condition_data ty c t e data n)) = n
             \<and> snd (condition_data ty c t e data n) = n + 1)
     \<and> (\<forall>b. command = ALAP_STATEMENT b \<longrightarrow>
           restore_point (fst (loop_data b data n)) = - 1 \<and> snd (loop_data b data n) = n
           \<or> restore_point (fst (loop_data b data n)) = n \<and> snd (loop_data b data n) = n + 1)
     \<and> (\<forall>out n'. generateProgramCode graph_copying command data n = Inr (out, n') \<longrightarrow> n \<le> n')"
proof -
  have "within_budget n0 (n0 + int (allocations main_program)) (main_program, initialData, n0, [])"
    by (simp add: within_budget_def)
  from reach_invariants(2)[OF assms(1) assms(2) this]
  have wb: "n0 \<le> n" "n + int (allocations command) \<le> n0 + int (allocations main_program)"
    "distinct live" "\<forall>f\<in>set live. n0 \<le> f \<and> f < n"
    by (simp_all add: within_budget_def)
  have bound: "n + int (allocations command) \<le> INT_MAX" using wb(2) assms(2) by simp
  have branch: "restore_point (fst (condition_data ty c t e data n)) = - 1
             \<and> snd (condition_data ty c t e data n) = n
           \<or> restore_point (fst (condition_data ty c t e data n)) = n
             \<and> snd (condition_data ty c t e data n) = n + 1"
    if "command = COND_BRANCH ty c t e" for ty c t e
  proof (cases "branch_allocates ty c t e")
    case True
    then have "n < INT_MAX" using bound that by simp
    then show ?thesis using True
      by (simp add: condition_data_allocation(1,2) increment_below_INT_MAX)
  next
    case False
    then show ?thesis by (simp add: condition_data_allocation(1,2))
  qed
  have loop: "restore_point (fst (loop_data b data n)) = - 1 \<and> snd (loop_data b data n) = n
           \<or> restore_point (fst (loop_data b data n)) = n \<and> snd (loop_data b data n) = n + 1"
    if "command = ALAP_STATEMENT b" for b
  proof (cases "singleRule b")
    case True
    then show ?thesis by (simp add: loop_data_allocation(1,2))
  next
    case False
    then have "n < INT_MAX" using bound that by simp
    then show ?thesis using False
      by (simp add: loop_data_allocation(1,2) increment_below_INT_MAX)
  qed
  have mono: "n \<le> n'" if "generateProgramCode graph_copying command data n = Inr (out, n')"
    for out n'
    using counter_exact(1)[OF bound that] by simp
  show ?thesis using wb(1,3,4) branch loop mono by blast
qed

text \<open>
  The inner loop of \<open>(r1; (r1; r2)!)!\<close>: the frame 0 is live, and the body of the loop
  is allocated the restore point 1 at the counter 1, which becomes 2.
\<close>

theorem restore_point_ids_distinct_witness:
  "(subcall False)\<^sup>*\<^sup>* (nested_recording_loops, initialData, 0, [])
     (ALAP_STATEMENT (COMMAND_SEQUENCE [RULE_CALL r1, RULE_CALL r2]),
      \<lparr>context = LOOP_BODY, loop_depth = 1, record_changes = True, restore_point = 0, indent = 6\<rparr>,
      1, [0])
   \<and> 0 + int (allocations nested_recording_loops) \<le> INT_MAX
   \<and> (0::int) \<le> 1 \<and> distinct [0::int] \<and> (0::int) < 1
   \<and> restore_point (fst (loop_data (COMMAND_SEQUENCE [RULE_CALL r1, RULE_CALL r2])
        \<lparr>context = LOOP_BODY, loop_depth = 1, record_changes = True, restore_point = 0,
          indent = 6\<rparr> 1)) = 1
   \<and> snd (loop_data (COMMAND_SEQUENCE [RULE_CALL r1, RULE_CALL r2])
        \<lparr>context = LOOP_BODY, loop_depth = 1, record_changes = True, restore_point = 0,
          indent = 6\<rparr> 1) = 2
   \<and> (\<exists>out n'. generateProgramCode False
          (ALAP_STATEMENT (COMMAND_SEQUENCE [RULE_CALL r1, RULE_CALL r2]))
          \<lparr>context = LOOP_BODY, loop_depth = 1, record_changes = True, restore_point = 0,
            indent = 6\<rparr> 1 = Inr (out, n') \<and> 1 \<le> n')"
proof -
  let ?ld0 = "\<lparr>context = LOOP_BODY, loop_depth = 1, record_changes = True, restore_point = 0,
                indent = 6\<rparr>"
  let ?inner = "COMMAND_SEQUENCE [RULE_CALL r1, RULE_CALL r2]"
  let ?body = "COMMAND_SEQUENCE [RULE_CALL r1, ALAP_STATEMENT ?inner]"
  have s1: "subcall False (nested_recording_loops, initialData, 0, []) (?body, ?ld0, 1, [0])"
    using subcall.loop_body[of ?body initialData 0 ?ld0 1 False "[]"]
    by (simp add: nested_recording_loops_def loop_data_def initialData_def enter_frame_def r1_def
          increment_restore_point_count_def INT_MAX_def)
  obtain code where g: "generateCommands False [RULE_CALL r1] ?ld0 1 = Inr (code, 1)"
    by simp
  have s2: "subcall False (?body, ?ld0, 1, [0]) (ALAP_STATEMENT ?inner, ?ld0, 1, [0])"
    using subcall.sequence_element[OF g, of "ALAP_STATEMENT ?inner" "[]" "[0]"] by simp
  from s1 s2 have
    reach: "(subcall False)\<^sup>*\<^sup>* (nested_recording_loops, initialData, 0, [])
              (ALAP_STATEMENT ?inner, ?ld0, 1, [0])"
    by simp
  have bound: "0 + int (allocations nested_recording_loops) \<le> INT_MAX"
    by (simp add: nested_recording_loops_def INT_MAX_def r1_def r2_def)
  obtain out n' where
    gen: "generateProgramCode False (ALAP_STATEMENT ?inner) ?ld0 1 = Inr (out, n')"
    by (simp add: Let_def r1_def r2_def)
  have sr: "\<not> singleRule ?inner" by (simp add: r1_def r2_def)
  note all = restore_point_ids_distinct[OF reach bound]
  note loops = all[THEN conjunct2, THEN conjunct2, THEN conjunct2, THEN conjunct2, THEN conjunct1]
  note grows = all[THEN conjunct2, THEN conjunct2, THEN conjunct2, THEN conjunct2, THEN conjunct2]
  have mono: "1 \<le> n'" using grows[rule_format, OF gen] .
  have facts: "restore_point (fst (loop_data ?inner ?ld0 1)) = - 1 \<and> snd (loop_data ?inner ?ld0 1) = 1
           \<or> restore_point (fst (loop_data ?inner ?ld0 1)) = 1 \<and> snd (loop_data ?inner ?ld0 1) = 2"
    using loops[rule_format, OF refl] by simp
  have "restore_point (fst (loop_data ?inner ?ld0 1)) = 1" using sr by (simp add: loop_data_def)
  with facts have alloc: "restore_point (fst (loop_data ?inner ?ld0 1)) = 1"
    "snd (loop_data ?inner ?ld0 1) = 2"
    by simp_all
  have ex: "\<exists>out n'. generateProgramCode False (ALAP_STATEMENT ?inner) ?ld0 1 = Inr (out, n') \<and> 1 \<le> n'"
    using gen mono by blast
  show ?thesis
    apply (intro conjI)
    apply (rule reach)
    apply (rule bound)
    apply simp
    apply simp
    apply simp
    apply (rule alloc(1))
    apply (rule alloc(2))
    apply (rule ex)
    done
qed

text \<open>
  The counter is not pre-incremented as C8 states: the first allocation, made at the
  counter 0 for the condition of \<open>if (r1; r2) then skip else skip\<close>, yields the
  identifier 0 and the counter 1.
\<close>

theorem post_increment_counterexample:
  "\<not> pre_incremented 0
       (condition_data IF_STATEMENT (COMMAND_SEQUENCE [RULE_CALL r1, RULE_CALL r2])
          SKIP_STATEMENT SKIP_STATEMENT initialData 0)
   \<and> restore_point (fst (condition_data IF_STATEMENT (COMMAND_SEQUENCE [RULE_CALL r1, RULE_CALL r2])
                           SKIP_STATEMENT SKIP_STATEMENT initialData 0)) = 0
   \<and> snd (condition_data IF_STATEMENT (COMMAND_SEQUENCE [RULE_CALL r1, RULE_CALL r2])
              SKIP_STATEMENT SKIP_STATEMENT initialData 0) = 1"
  by (simp add: pre_incremented_def condition_data_def r1_def r2_def
        increment_restore_point_count_def INT_MAX_def)

subsection \<open>Generating twice\<close>

lemma main_declarations_no_allocation:
  "allocations_declarations ds = 0 \<Longrightarrow> generateMainDeclarations gc ds n = Inr (out, n')
     \<Longrightarrow> n' = n \<and> generateMainDeclarations gc ds m = Inr (out, m)"
proof (induction ds arbitrary: out n')
  case Nil
  then show ?case by auto
next
  case (Cons decl ds)
  from Cons.prems(2) obtain code n1 rest where
    a: "(case decl of
           MAIN_DECLARATION main_program \<Rightarrow> generateProgramCode gc main_program initialData n
         | PROCEDURE_DECLARATION local_decls \<Rightarrow> Inr ([], n)
         | RULE_DECLARATION r \<Rightarrow> Inr ([], n)) = Inr (code, n1)"
    and b: "generateMainDeclarations gc ds n1 = Inr (rest, n')"
    and out: "out = code @ rest"
    by (auto split: sum.splits prod.splits)
  have zb: "allocations_declarations ds = 0" using Cons.prems(1) by simp
  have a': "n1 = n \<and> (case decl of
           MAIN_DECLARATION main_program \<Rightarrow> generateProgramCode gc main_program initialData m
         | PROCEDURE_DECLARATION local_decls \<Rightarrow> Inr ([], m)
         | RULE_DECLARATION r \<Rightarrow> Inr ([], m)) = Inr (code, m)"
  proof (cases decl)
    case (MAIN_DECLARATION main_program)
    then have "allocations main_program = 0" using Cons.prems(1) by simp
    from no_allocation_independent(1)[OF this, of gc initialData n code n1 m] a MAIN_DECLARATION
    show ?thesis by simp
  next
    case (PROCEDURE_DECLARATION local_decls)
    then show ?thesis using a by simp
  next
    case (RULE_DECLARATION r)
    then show ?thesis using a by simp
  qed
  then have n1: "n1 = n" by simp
  have b': "n' = n \<and> generateMainDeclarations gc ds m = Inr (rest, m)"
    using Cons.IH[OF zb b[unfolded n1]] .
  show ?case using a' b' out by simp
qed

text \<open>
  C4, as the generator behaves: when the main declarations allocate no restore point,
  that is, every if statement has a condition that is \<open>singleRule\<close>, every try statement
  has a null condition or a \<open>singleRule\<close> condition with null then and else branches, and
  every loop has a body that is \<open>singleRule\<close>, an invocation of the generator leaves
  \<open>restore_point_count\<close> as it found it, its output is the same from every value of the
  counter, and invoking the generator twice on the declarations yields the same output
  both times.
\<close>

theorem generation_repeatable_without_allocation:
  assumes "allocations_declarations declarations = 0"
    and "generateRuntimeMain graph_copying list_hashing fopen_ok declarations n = Inr (out, n')"
  shows "n' = n
         \<and> generateRuntimeMain graph_copying list_hashing fopen_ok declarations m = Inr (out, m)
         \<and> generate_twice graph_copying list_hashing declarations n = Inr (out, out)"
proof -
  from assms(2) have ok: "fopen_ok"
    by (auto simp: generateRuntimeMain_def split: if_splits)
  from assms(2) obtain program_code where
    a: "generateMainDeclarations graph_copying declarations n = Inr (program_code, n')"
    by (auto simp: generateRuntimeMain_def split: if_splits sum.splits prod.splits)
  from main_declarations_no_allocation[OF assms(1) a, of m]
  have n': "n' = n"
    and a': "generateMainDeclarations graph_copying declarations m = Inr (program_code, m)"
    by simp_all
  have m: "generateRuntimeMain graph_copying list_hashing fopen_ok declarations m = Inr (out, m)"
    using assms(2) a a' ok by (simp add: generateRuntimeMain_def)
  have "generate_twice graph_copying list_hashing declarations n = Inr (out, out)"
    using assms(2) ok n' by (simp add: generate_twice_def)
  with n' m show ?thesis by simp
qed

lemma branch_and_loop_generated:
  "\<exists>code. generateMainDeclarations False (program branch_and_loop_without_restore_point) 0
            = Inr (code, 0)"
  by (simp add: program_def branch_and_loop_without_restore_point_def Let_def condition_data_def
        loop_data_def r1_def r2_def)

text \<open>
  The program \<open>Main = if r1 then r2 else skip; r2!\<close>: the branch and the loop are
  decided to need no restore point.
\<close>

theorem generation_repeatable_without_allocation_witness:
  "allocations_declarations (program branch_and_loop_without_restore_point) = 0
   \<and> (\<exists>out. generateRuntimeMain False False True (program branch_and_loop_without_restore_point) 0
               = Inr (out, 0)
          \<and> generateRuntimeMain False False True (program branch_and_loop_without_restore_point) 5
               = Inr (out, 5)
          \<and> generate_twice False False (program branch_and_loop_without_restore_point) 0
               = Inr (out, out))"
proof -
  have z: "allocations_declarations (program branch_and_loop_without_restore_point) = 0"
    by (simp add: program_def branch_and_loop_without_restore_point_def branch_allocates_def
          r1_def r2_def)
  obtain code where "generateMainDeclarations False (program branch_and_loop_without_restore_point) 0
            = Inr (code, 0)"
    using branch_and_loop_generated by blast
  then obtain out where
    h: "generateRuntimeMain False False True (program branch_and_loop_without_restore_point) 0
          = Inr (out, 0)"
    by (simp add: generateRuntimeMain_def)
  from generation_repeatable_without_allocation[OF z h, of 5] show ?thesis
    using z h by blast
qed

lemma generateRuntimeMain_shape:
  "\<exists>header. \<forall>n. generateRuntimeMain graph_copying list_hashing True declarations n =
     (case generateMainDeclarations graph_copying declarations n of
        Inl e \<Rightarrow> Inl e
      | Inr (program_code, n1) \<Rightarrow> Inr (header @ program_code @ main_exit_code, n1))"
  by (rule exI[of _ "PTF ''#include <time.h>\<newline>''
                    @ PTF (''#include '' @ dq @ ''common.h'' @ dq @ ''\<newline>'')
                    @ PTF (''#include '' @ dq @ ''debug.h'' @ dq @ ''\<newline>'')
                    @ PTF (''#include '' @ dq @ ''graph.h'' @ dq @ ''\<newline>'')
                    @ PTF (''#include '' @ dq @ ''graphStacks.h'' @ dq @ ''\<newline>'')
                    @ PTF (''#include '' @ dq @ ''parser.h'' @ dq @ ''\<newline>'')
                    @ PTF (''#include '' @ dq @ ''morphism.h'' @ dq @ ''\<newline>\<newline>'')
                    @ generateMorphismCode declarations Declare True
                    @ generateMorphismCode declarations Free True
                    @ garbageCollect_code graph_copying list_hashing
                    @ PTF ''Graph *host = NULL;\<newline>''
                    @ PTF ''int *node_map = NULL;\<newline>\<newline>''
                    @ buildHostGraph_code
                    @ PTF ''bool success = true;\<newline>\<newline>''
                    @ main_entry_code
                    @ generateMorphismCode declarations Make True"])
     (simp add: generateRuntimeMain_def split: sum.splits)

lemma if_r1_r2_twice:
  "(case generateMainDeclarations False (program if_r1_r2) 0 of
      Inl e \<Rightarrow> False
    | Inr (first_code, n1) \<Rightarrow>
        n1 = 1 \<and>
        (case generateMainDeclarations False (program if_r1_r2) 1 of
           Inl e \<Rightarrow> False
         | Inr (second_code, n2) \<Rightarrow> concat first_code \<noteq> concat second_code))"
  by code_simp

text \<open>
  Idempotence as C4 states it fails for \<open>Main = if (r1; r2) then skip else skip\<close>: the
  first invocation names the restore point \<open>restore_point0\<close> and leaves the counter at
  1, the second names it \<open>restore_point1\<close>, and the two files differ.
\<close>

theorem generate_twice_counterexample:
  "(case generate_twice False False (program if_r1_r2) 0 of
      Inl e \<Rightarrow> False
    | Inr (first_output, second_output) \<Rightarrow>
        file_contents first_output \<noteq> file_contents second_output)"
proof -
  obtain header where
    h: "\<And>n. generateRuntimeMain False False True (program if_r1_r2) n =
     (case generateMainDeclarations False (program if_r1_r2) n of
        Inl e \<Rightarrow> Inl e
      | Inr (program_code, n1) \<Rightarrow> Inr (header @ program_code @ main_exit_code, n1))"
    using generateRuntimeMain_shape[of False False "program if_r1_r2"] by blast
  show ?thesis
    using if_r1_r2_twice
    by (auto simp: generate_twice_def h file_contents_def split: sum.splits prod.splits)
qed

end
